theory Spec2Isabelle
  imports
    Complex_Main
    "HOL-Library.Word"
    "HOL-Library.AList"
    "HOL-Library.Sublist"
    "HOL-Library.Char_ord"
    "HOL-Library.List_Lexorder"
begin

unbundle bit_operations_syntax

section \<open>Python values\<close>

text \<open>
  A Python \<open>str\<close> is held as the list of its UTF-8 bytes (\<^typ>\<open>string\<close>), so that
  concatenation, \<open>startswith\<close> with an ASCII prefix and the lexicographic order agree with
  Python's; \<open>topic[:10]\<close> is only taken of the ASCII text that \<open>Web3.to_hex\<close> returns.
  Counters are Python integers (\<^typ>\<open>int\<close>). A \<open>dict\<close> keeps its keys in insertion order:
  it is an association list with \<open>d[k] = v\<close> as \<^const>\<open>AList.update\<close> (replace in place, or
  append a new key at the end), \<open>d.get(k, default)\<close> as \<open>dict_get\<close>, \<open>k in d\<close> as
  \<open>map_of d k \<noteq> None\<close> and \<open>d.keys()\<close> as \<open>map fst d\<close>.
\<close>

type_synonym byte = "8 word"

type_synonym lane = "64 word"

definition dict_get :: "('k \<times> 'v) list \<Rightarrow> 'k \<Rightarrow> 'v \<Rightarrow> 'v" where
  "dict_get d k dflt = (case map_of d k of None \<Rightarrow> dflt | Some v \<Rightarrow> v)"

text \<open>The values \<open>json.load\<close> returns.\<close>

datatype json =
    JNull
  | JBool bool
  | JInt int
  | JFloat real
  | JStr string
  | JArr "json list"
  | JObj "(string \<times> json) list"

text \<open>The exceptions that occur: those the code raises itself, and whatever a collaborator
  (file system, JSON parser, RPC transport, address validation) raises.\<close>

datatype exn =
    KeyError string
  | TypeError
  | AttributeError
  | ValueError string
  | ExternalError string

text \<open>Python truthiness (\<open>not name\<close>).\<close>

fun truthy :: "json \<Rightarrow> bool" where
  "truthy JNull = False"
| "truthy (JBool b) = b"
| "truthy (JInt i) = (i \<noteq> 0)"
| "truthy (JFloat r) = (r \<noteq> 0)"
| "truthy (JStr s) = (s \<noteq> [])"
| "truthy (JArr xs) = (xs \<noteq> [])"
| "truthy (JObj kvs) = (kvs \<noteq> [])"

text \<open>
  A dict whose keys are such values (not only strings). Python compares keys with \<open>==\<close>, for
  which \<open>bool\<close>, \<open>int\<close> and \<open>float\<close> are numbers (\<open>True == 1 == 1.0\<close>), a \<open>str\<close> is equal only
  to the same \<open>str\<close>, and a number is never equal to a \<open>str\<close> or to \<open>None\<close>. A \<open>list\<close> or a
  \<open>dict\<close> cannot be a key: hashing it raises \<open>TypeError\<close>. \<open>d.get(k, default)\<close> is \<open>py_get\<close>,
  and \<open>d[k] = v\<close> is \<open>py_set\<close>, which keeps the key that is already there when an equal one
  is stored again.
\<close>

fun py_num :: "json \<Rightarrow> real option" where
  "py_num (JBool b) = Some (if b then 1 else 0)"
| "py_num (JInt i) = Some (of_int i)"
| "py_num (JFloat r) = Some r"
| "py_num _ = None"

definition py_eq :: "json \<Rightarrow> json \<Rightarrow> bool" where
  "py_eq x y =
     (case (py_num x, py_num y) of
        (Some p, Some q) \<Rightarrow> p = q
      | (None, None) \<Rightarrow> x = y
      | _ \<Rightarrow> False)"

fun py_hashable :: "json \<Rightarrow> bool" where
  "py_hashable (JArr xs) = False"
| "py_hashable (JObj kvs) = False"
| "py_hashable _ = True"

fun py_get :: "(json \<times> 'v) list \<Rightarrow> json \<Rightarrow> 'v \<Rightarrow> 'v" where
  "py_get [] k dflt = dflt"
| "py_get ((k', v) # d) k dflt = (if py_eq k' k then v else py_get d k dflt)"

fun py_set :: "(json \<times> 'v) list \<Rightarrow> json \<Rightarrow> 'v \<Rightarrow> (json \<times> 'v) list" where
  "py_set [] k v = [(k, v)]"
| "py_set ((k', v') # d) k v =
     (if py_eq k' k then (k', v) # d else (k', v') # py_set d k v)"

text \<open>\<open>isinstance(v, str)\<close>, and the text of a \<open>str\<close>.\<close>

fun is_str :: "json \<Rightarrow> bool" where
  "is_str (JStr s) = True"
| "is_str _ = False"

fun the_str :: "json \<Rightarrow> string" where
  "the_str (JStr s) = s"
| "the_str _ = []"

text \<open>
  \<open>sorted(keys)\<close> on the keys of such a dict (hashable, and no two of them equal). Strings
  are ordered among themselves (by code point, which is the order of their UTF-8 bytes) and
  numbers among themselves (by value); \<open><\<close> between a \<open>str\<close> and a number, or with \<open>None\<close>,
  raises \<open>TypeError\<close>, and sorting two or more keys that are not all strings or all numbers
  has to make such a comparison. One key alone is never compared.
\<close>

definition py_sorted :: "json list \<Rightarrow> exn + json list" where
  "py_sorted ks =
     (if list_all is_str ks then Inr (map JStr (sort (map the_str ks)))
      else if list_all (\<lambda>k. py_num k \<noteq> None) ks
      then Inr (sort_key (\<lambda>k. case py_num k of Some r \<Rightarrow> r | None \<Rightarrow> 0) ks)
      else if length ks \<le> 1 then Inr ks
      else Inl TypeError)"

text \<open>\<open>sep.join(items)\<close> on strings.\<close>

fun join :: "string \<Rightarrow> string list \<Rightarrow> string" where
  "join sep [] = []"
| "join sep [s] = s"
| "join sep (s # t # rest) = s @ sep @ join sep (t # rest)"

text \<open>\<open>bytes.hex()\<close>: two lowercase hexadecimal digits per byte.\<close>

definition hexdigit :: "nat \<Rightarrow> char" where
  "hexdigit n = ''0123456789abcdef'' ! n"

definition hex_byte :: "byte \<Rightarrow> string" where
  "hex_byte b = [hexdigit (unat b div 16), hexdigit (unat b mod 16)]"

definition hex :: "byte list \<Rightarrow> string" where
  "hex bs = concat (map hex_byte bs)"

text \<open>\<open>Web3.to_hex\<close> on the \<open>HexBytes\<close> of a log topic.\<close>

definition to_hex :: "byte list \<Rightarrow> string" where
  "to_hex bs = ''0x'' @ hex bs"

text \<open>The UTF-8 encoding of a \<open>str\<close>: the bytes the string is held as.\<close>

definition utf8 :: "string \<Rightarrow> byte list" where
  "utf8 s = map of_char s"

section \<open>Keccak-256\<close>

text \<open>
  \<open>eth_utils.keccak\<close> is the library's Keccak-256: the sponge over Keccak-f[1600] with rate
  136 bytes, the original padding (first pad byte \<open>0x01\<close>, last pad byte \<open>0x80\<close>) and a 32-byte
  digest. The 25 lanes of the state are a list indexed by \<open>x + 5 * y\<close>; bytes go into lanes
  and out of them in little-endian order.
\<close>

definition round_constants :: "lane list" where
  "round_constants =
    [0x0000000000000001, 0x0000000000008082, 0x800000000000808A, 0x8000000080008000,
     0x000000000000808B, 0x0000000080000001, 0x8000000080008081, 0x8000000000008009,
     0x000000000000008A, 0x0000000000000088, 0x0000000080008009, 0x000000008000000A,
     0x000000008000808B, 0x800000000000008B, 0x8000000000008089, 0x8000000000008003,
     0x8000000000008002, 0x8000000000000080, 0x000000000000800A, 0x800000008000000A,
     0x8000000080008081, 0x8000000000008080, 0x0000000080000001, 0x8000000080008008]"

definition rotation_offsets :: "nat list" where
  "rotation_offsets =
    [ 0,  1, 62, 28, 27,
     36, 44,  6, 55, 20,
      3, 10, 43, 25, 39,
     41, 45, 15, 21,  8,
     18,  2, 61, 56, 14]"

text \<open>Rotation of a lane to the left by \<open>n\<close> bits, \<open>0 \<le> n < 64\<close>.\<close>

definition rotl64 :: "nat \<Rightarrow> lane \<Rightarrow> lane" where
  "rotl64 n w = push_bit n w OR drop_bit (64 - n) w"

definition theta :: "lane list \<Rightarrow> lane list" where
  "theta a =
     (let c = map (\<lambda>x. a ! x XOR a ! (x + 5) XOR a ! (x + 10) XOR a ! (x + 15) XOR a ! (x + 20)) [0..<5];
          d = map (\<lambda>x. c ! ((x + 4) mod 5) XOR rotl64 1 (c ! ((x + 1) mod 5))) [0..<5]
      in map (\<lambda>i. a ! i XOR d ! (i mod 5)) [0..<25])"

definition rho_pi :: "lane list \<Rightarrow> lane list" where
  "rho_pi a =
     map (\<lambda>j. let x = j mod 5; y = j div 5; src = (x + 3 * y) mod 5 + 5 * x
               in rotl64 (rotation_offsets ! src) (a ! src)) [0..<25]"

definition chi :: "lane list \<Rightarrow> lane list" where
  "chi b =
     map (\<lambda>i. let x = i mod 5; y = i div 5
               in b ! i XOR (NOT (b ! ((x + 1) mod 5 + 5 * y)) AND b ! ((x + 2) mod 5 + 5 * y)))
       [0..<25]"

definition iota :: "lane \<Rightarrow> lane list \<Rightarrow> lane list" where
  "iota rc a = a[0 := a ! 0 XOR rc]"

definition keccak_round :: "lane list \<Rightarrow> lane \<Rightarrow> lane list" where
  "keccak_round a rc = iota rc (chi (rho_pi (theta a)))"

definition keccak_f :: "lane list \<Rightarrow> lane list" where
  "keccak_f a = foldl keccak_round a round_constants"

definition lane_of_bytes :: "byte list \<Rightarrow> lane" where
  "lane_of_bytes bs = foldr (\<lambda>b w. push_bit 8 w OR ucast b) bs 0"

definition bytes_of_lane :: "lane \<Rightarrow> byte list" where
  "bytes_of_lane w = map (\<lambda>k. ucast (drop_bit (8 * k) w)) [0..<8]"

definition pad :: "byte list \<Rightarrow> byte list" where
  "pad m =
     (let k = 136 - length m mod 136
      in if k = 1 then m @ [0x81] else m @ [0x01] @ replicate (k - 2) 0 @ [0x80])"

definition absorb_block :: "lane list \<Rightarrow> byte list \<Rightarrow> lane list" where
  "absorb_block a blk =
     keccak_f (map (\<lambda>i. if i < 17 then a ! i XOR lane_of_bytes (take 8 (drop (8 * i) blk))
                         else a ! i) [0..<25])"

fun blocks :: "nat \<Rightarrow> byte list \<Rightarrow> byte list list" where
  "blocks 0 bs = []"
| "blocks (Suc n) bs = take 136 bs # blocks n (drop 136 bs)"

definition keccak :: "byte list \<Rightarrow> byte list" where
  "keccak m =
     (let p = pad m;
          a = foldl absorb_block (replicate 25 0) (blocks (length p div 136) p)
      in concat (map bytes_of_lane (take 4 a)))"

section \<open>Signature mapper\<close>

text \<open>
  An entry of the map \<open>build_event_signature_map\<close> returns. The name of an ABI event is a
  string, but the code stores under \<open>"name"\<close> whatever truthy value the JSON gives, so the
  entry is polymorphic in the type of the name: the map the program builds (\<open>raw_topic_map\<close>)
  holds the JSON value as it is, and a map all of whose names are strings is also written
  with plain strings (\<open>topic_map\<close>). Only the text of the signature goes through the
  f-string, which formats a value that is not a \<open>str\<close> with Python's built-in \<open>str()\<close>, a
  parameter (\<open>str\<close>) of the model.
\<close>

record 'n sig_entry =
  name :: 'n
  inputs :: "json list"
  signature :: string

type_synonym raw_topic_map = "(string \<times> json sig_entry) list"


text \<open>\<open>i["type"]\<close> for one element of \<open>inputs\<close>: only a dict can be subscripted by a string,
  and the key must be there.\<close>

fun subscript_type :: "json \<Rightarrow> exn + json" where
  "subscript_type (JObj d) =
     (case map_of d ''type'' of None \<Rightarrow> Inl (KeyError ''type'') | Some v \<Rightarrow> Inr v)"
| "subscript_type _ = Inl TypeError"

text \<open>The generator \<open>i["type"] for i in inputs\<close>, which \<open>join\<close> consumes to its end before it
  looks at the items.\<close>

fun collect_types :: "json list \<Rightarrow> exn + json list" where
  "collect_types [] = Inr []"
| "collect_types (i # rest) =
     (case subscript_type i of
        Inl e \<Rightarrow> Inl e
      | Inr t \<Rightarrow> (case collect_types rest of Inl e \<Rightarrow> Inl e | Inr ts \<Rightarrow> Inr (t # ts)))"

text \<open>\<open>join\<close> accepts only \<open>str\<close> items.\<close>

fun str_items :: "json list \<Rightarrow> exn + string list" where
  "str_items [] = Inr []"
| "str_items (JStr s # rest) =
     (case str_items rest of Inl e \<Rightarrow> Inl e | Inr ss \<Rightarrow> Inr (s # ss))"
| "str_items (_ # rest) = Inl TypeError"

definition format_name :: "(json \<Rightarrow> string) \<Rightarrow> json \<Rightarrow> string" where
  "format_name str v = (case v of JStr s \<Rightarrow> s | _ \<Rightarrow> str v)"

text \<open>The body of the loop of \<open>build_event_signature_map\<close> up to the hash: \<open>Inr None\<close> is
  \<open>continue\<close>, \<open>Inl\<close> an exception.\<close>

definition event_entry :: "(json \<Rightarrow> string) \<Rightarrow> json \<Rightarrow> exn + json sig_entry option" where
  "event_entry str item =
     (case item of
        JObj d \<Rightarrow>
          if dict_get d ''type'' JNull \<noteq> JStr ''event'' then Inr None
          else
            (let nm = dict_get d ''name'' JNull;
                 ins = dict_get d ''inputs'' (JArr [])
             in case ins of
                  JArr is \<Rightarrow>
                    if \<not> truthy nm then Inr None
                    else
                      (case collect_types is of
                         Inl e \<Rightarrow> Inl e
                       | Inr ts \<Rightarrow>
                           (case str_items ts of
                              Inl e \<Rightarrow> Inl e
                            | Inr arg_types \<Rightarrow>
                                Inr (Some \<lparr>name = nm, inputs = is,
                                           signature = format_name str nm @ ''('' @
                                                       join '','' arg_types @ '')''\<rparr>)))
                | _ \<Rightarrow> Inr None)
      | _ \<Rightarrow> Inl AttributeError)"

definition topic_of :: "string \<Rightarrow> string" where
  "topic_of sg = ''0x'' @ hex (keccak (utf8 sg))"

fun build_loop ::
  "(json \<Rightarrow> string) \<Rightarrow> json list \<Rightarrow> raw_topic_map \<Rightarrow> exn + raw_topic_map" where
  "build_loop str [] tm = Inr tm"
| "build_loop str (item # rest) tm =
     (case event_entry str item of
        Inl e \<Rightarrow> Inl e
      | Inr None \<Rightarrow> build_loop str rest tm
      | Inr (Some en) \<Rightarrow> build_loop str rest (AList.update (topic_of (signature en)) en tm))"

definition build_event_signature_map ::
  "(json \<Rightarrow> string) \<Rightarrow> json list \<Rightarrow> exn + raw_topic_map" where
  "build_event_signature_map str abi = build_loop str abi []"

section \<open>Range chunker\<close>

text \<open>The \<open>while\<close> loop of \<open>chunk_ranges\<close>; \<open>None\<close> is a loop that never ends.\<close>

partial_function (option) chunk_loop ::
  "int \<Rightarrow> int \<Rightarrow> int \<Rightarrow> (int \<times> int) list \<Rightarrow> (int \<times> int) list option" where
  [code]: "chunk_loop cur end step ranges =
     (if cur \<le> end
      then (let rng_end = min (cur + step - 1) end
            in chunk_loop (rng_end + 1) end step (ranges @ [(cur, rng_end)]))
      else Some ranges)"

definition chunk_ranges :: "int \<Rightarrow> int \<Rightarrow> int \<Rightarrow> (int \<times> int) list option" where
  "chunk_ranges start end step = chunk_loop start end step []"

text \<open>The closed form of the result, used in the proofs: the number of chunks and the
  \<open>k\<close>-th chunk.\<close>

definition chunk_count :: "int \<Rightarrow> int \<Rightarrow> int \<Rightarrow> nat" where
  "chunk_count start end step = nat ((end - start + step) div step)"

definition chunk_at :: "int \<Rightarrow> int \<Rightarrow> int \<Rightarrow> nat \<Rightarrow> int \<times> int" where
  "chunk_at start end step k =
     (start + int k * step, min (start + int k * step + step - 1) end)"

definition chunk_list :: "int \<Rightarrow> int \<Rightarrow> int \<Rightarrow> (int \<times> int) list" where
  "chunk_list start end step = map (chunk_at start end step) [0..<chunk_count start end step]"

section \<open>Log fetcher\<close>

text \<open>
  A log record, as far as the program reads it: the value under \<open>"topics"\<close>, when the key is
  there.
\<close>

record log =
  topics :: "byte list list option"

text \<open>
  The collaborators. The node answers a log query from the address, the block range and the
  queries it has been sent before (the history), so that a node that fails once and then
  answers is a node of the model; the other calls are made at most once each.
\<close>

record world =
  is_connected :: bool
  chain_id :: "exn + int"
  block_number :: "exn + int"
  get_logs :: "(int \<times> int) list \<Rightarrow> string \<Rightarrow> int \<Rightarrow> int \<Rightarrow> exn + log list"
  to_checksum_address :: "string \<Rightarrow> exn + string"
  load_json :: "string \<Rightarrow> exn + json"
  py_str :: "json \<Rightarrow> string"

text \<open>The \<open>for\<close> loop of \<open>fetch_logs\<close>, with the history of the queries sent.\<close>

fun fetch_loop ::
  "world \<Rightarrow> string \<Rightarrow> (int \<times> int) list \<Rightarrow> log list \<Rightarrow> (int \<times> int) list
     \<Rightarrow> (exn + log list) \<times> (int \<times> int) list" where
  "fetch_loop W addr [] all_logs hist = (Inr all_logs, hist)"
| "fetch_loop W addr ((a, b) # rest) all_logs hist =
     (case to_checksum_address W addr of
        Inl e \<Rightarrow> (Inl e, hist)
      | Inr ca \<Rightarrow>
          (case get_logs W hist ca a b of
             Inl e \<Rightarrow> (Inl e, hist @ [(a, b)])
           | Inr logs \<Rightarrow> fetch_loop W addr rest (all_logs @ logs) (hist @ [(a, b)])))"

definition fetch_logs ::
  "world \<Rightarrow> string \<Rightarrow> int \<Rightarrow> int \<Rightarrow> int \<Rightarrow> (int \<times> int) list
     \<Rightarrow> ((exn + log list) \<times> (int \<times> int) list) option" where
  "fetch_logs W addr from_block to_block step hist =
     (case chunk_ranges from_block to_block step of
        None \<Rightarrow> None
      | Some rs \<Rightarrow> Some (fetch_loop W addr rs [] hist))"

text \<open>What the node answers when the queries \<open>rs\<close> are sent one after the other.\<close>

fun responses :: "world \<Rightarrow> string \<Rightarrow> (int \<times> int) list \<Rightarrow> (int \<times> int) list
    \<Rightarrow> (exn + log list) list" where
  "responses W ca hist [] = []"
| "responses W ca hist ((a, b) # rest) =
     get_logs W hist ca a b # responses W ca (hist @ [(a, b)]) rest"

section \<open>Classifier\<close>

type_synonym counts = "(string \<times> int) list"

text \<open>The first loop of the analysis in \<open>main\<close>. It only asks whether a topic is a key of
  the signature map, so it is the same for every type of entry.\<close>

fun analyze_topics ::
  "(string \<times> 'e) list \<Rightarrow> log list \<Rightarrow> counts \<Rightarrow> counts \<Rightarrow> counts \<times> counts" where
  "analyze_topics tm [] cbt unk = (cbt, unk)"
| "analyze_topics tm (lg # rest) cbt unk =
     (case map to_hex (case topics lg of None \<Rightarrow> [] | Some ts \<Rightarrow> ts) of
        [] \<Rightarrow> analyze_topics tm rest cbt unk
      | t0 # _ \<Rightarrow>
          analyze_topics tm rest
            (AList.update t0 (dict_get cbt t0 0 + 1) cbt)
            (if map_of tm t0 = None then AList.update t0 (dict_get unk t0 0 + 1) unk else unk))"

text \<open>The fallback of the second loop: \<open>UNKNOWN(\<close>, the first ten characters of the topic,
  the ellipsis U+2026 (three bytes in UTF-8) and \<open>)\<close>.\<close>

definition fallback_name :: "string \<Rightarrow> string" where
  "fallback_name topic = ''UNKNOWN('' @ take 10 topic @ [CHR 0xE2, CHR 0x80, CHR 0xA6] @ '')''"



text \<open>The required-events check; the list is looked at only when it is given and not empty.\<close>

definition present_names :: "counts \<Rightarrow> string set" where
  "present_names cbn = set (filter (\<lambda>n. \<not> prefix ''UNKNOWN('' n) (map fst cbn))"

definition check_required :: "counts \<Rightarrow> string list option \<Rightarrow> string list" where
  "check_required cbn required =
     (case required of
        None \<Rightarrow> []
      | Some reqs \<Rightarrow>
          if reqs = [] then [] else filter (\<lambda>req. req \<notin> present_names cbn) reqs)"

record 'n analysis =
  counts_by_topic :: counts
  unknown_topics :: counts
  counts_by_name :: "('n \<times> int) list"
  missing_required :: "string list"


text \<open>
  The same lines of \<open>main\<close> on the signature map that \<open>build_event_signature_map\<close> returns.
  The name a topic resolves to is the stored JSON value, or the fallback string. In the
  second loop \<open>counts_by_name.get(name, 0)\<close> hashes the name and raises \<open>TypeError\<close> for a
  list or a dict. The required-events check runs only for a list that is given and not
  empty; its generator calls \<open>n.startswith\<close> on every key of \<open>counts_by_name\<close>, which raises
  \<open>AttributeError\<close> at a key that is not a \<open>str\<close>; when every key is a \<open>str\<close> the check is
  \<open>check_required\<close> on those strings.
\<close>

definition resolve_raw :: "raw_topic_map \<Rightarrow> string \<Rightarrow> json" where
  "resolve_raw tm topic =
     (case map_of tm topic of None \<Rightarrow> JStr (fallback_name topic) | Some en \<Rightarrow> name en)"

fun map_names_raw ::
  "raw_topic_map \<Rightarrow> counts \<Rightarrow> (json \<times> int) list \<Rightarrow> exn + (json \<times> int) list" where
  "map_names_raw tm [] cbn = Inr cbn"
| "map_names_raw tm ((topic, cnt) # rest) cbn =
     (if \<not> py_hashable (resolve_raw tm topic) then Inl TypeError
      else map_names_raw tm rest
             (py_set cbn (resolve_raw tm topic) (py_get cbn (resolve_raw tm topic) 0 + cnt)))"

definition check_required_raw ::
  "(json \<times> int) list \<Rightarrow> string list option \<Rightarrow> exn + string list" where
  "check_required_raw cbn required =
     (case required of
        None \<Rightarrow> Inr []
      | Some reqs \<Rightarrow>
          if reqs = [] then Inr []
          else if \<not> list_all is_str (map fst cbn) then Inl AttributeError
          else Inr (check_required (map (\<lambda>(n, cnt). (the_str n, cnt)) cbn) required))"

definition analyze_raw ::
  "raw_topic_map \<Rightarrow> log list \<Rightarrow> string list option \<Rightarrow> exn + json analysis" where
  "analyze_raw tm logs required =
     (let (cbt, unk) = analyze_topics tm logs [] []
      in case map_names_raw tm cbt [] of
           Inl e \<Rightarrow> Inl e
         | Inr cbn \<Rightarrow>
             (case check_required_raw cbn required of
                Inl e \<Rightarrow> Inl e
              | Inr missing \<Rightarrow>
                  Inr \<lparr>counts_by_topic = cbt, unknown_topics = unk, counts_by_name = cbn,
                       missing_required = missing\<rparr>))"




text \<open>The exit code policy at the end of \<open>main\<close>.\<close>

definition exit_policy :: "'n analysis \<Rightarrow> int" where
  "exit_policy an = (if unknown_topics an \<noteq> [] \<or> missing_required an \<noteq> [] then 2 else 0)"


definition weight :: "('k \<Rightarrow> bool) \<Rightarrow> ('k \<times> int) list \<Rightarrow> int" where
  "weight P d = sum_list (map snd (filter (\<lambda>kv. P (fst kv)) d))"


section \<open>The program\<close>

record args =
  arg_rpc :: string
  arg_address :: string
  arg_abi :: string
  arg_from_block :: "int option"
  arg_to_block :: "int option"
  arg_step :: int
  arg_expected_events :: "string option"
  arg_json :: bool
  arg_timeout :: int

text \<open>The JSON summary; the elapsed time is left out of the model.\<close>

record summary =
  sum_rpc :: string
  sum_chain_id :: "int option"
  sum_address :: string
  sum_from_block :: int
  sum_to_block :: int
  sum_logs_fetched :: nat
  sum_analysis :: "json analysis"
  sum_required_events :: "string list option"

text \<open>What the program prints, one value per \<open>print\<close>. The lines of the report are those
  printed after the logs have been fetched.\<close>

datatype report_line =
    LogsFetched nat
  | CountsHeader
  | CountLine json int
  | NoEventsObserved
  | UnknownTopics nat
  | Sample string
  | NoUnknownTopics
  | MissingRequired string
  | AllRequiredObserved
  | Completed
  | JsonSummary summary

datatype line =
    ConnectionFailed
  | Banner
  | RpcLine string
  | ChainIdLine int
  | InvalidRange
  | AddressLine string
  | BlocksLine int int int
  | AbiLoadFailed exn
  | NoEventsInAbi
  | ExpectedEventsFailed exn
  | FetchFailed exn
  | Traceback exn
  | Report report_line

fun is_report :: "line \<Rightarrow> bool" where
  "is_report (Report r) = True"
| "is_report _ = False"

text \<open>An uncaught exception ends the process with a traceback and status 1.\<close>

record outcome =
  printed :: "line list"
  exit_code :: int

definition sys_exit :: "line list \<Rightarrow> int \<Rightarrow> outcome" where
  "sys_exit out code = \<lparr>printed = out, exit_code = code\<rparr>"

definition uncaught :: "line list \<Rightarrow> exn \<Rightarrow> outcome" where
  "uncaught out e = \<lparr>printed = out @ [Traceback e], exit_code = 1\<rparr>"

definition load_abi :: "world \<Rightarrow> string \<Rightarrow> exn + json list" where
  "load_abi W path =
     (case load_json W path of
        Inl e \<Rightarrow> Inl e
      | Inr (JArr items) \<Rightarrow> Inr items
      | Inr _ \<Rightarrow> Inl (ValueError ''ABI must be a JSON array.''))"

definition load_required :: "world \<Rightarrow> string option \<Rightarrow> exn + string list option" where
  "load_required W path =
     (case path of
        None \<Rightarrow> Inr None
      | Some p \<Rightarrow>
          if p = [] then Inr None
          else
            (case load_json W p of
               Inl e \<Rightarrow> Inl e
             | Inr (JArr items) \<Rightarrow>
                 (case str_items items of
                    Inl _ \<Rightarrow> Inl (ValueError ''expected-events must be a JSON array of strings.'')
                  | Inr reqs \<Rightarrow> Inr (Some reqs))
             | Inr _ \<Rightarrow> Inl (ValueError ''expected-events must be a JSON array of strings.'')))"

text \<open>What \<open>main\<close> has at hand once the block range is known, and when it starts to
  fetch.\<close>

record conn =
  c_printed :: "line list"
  c_chain_id :: "int option"
  c_from_block :: int
  c_to_block :: int
  c_address :: string

record ctx = conn +
  c_topic_map :: raw_topic_map
  c_required :: "string list option"

text \<open>\<open>main\<close> up to the line that prints the block range: \<open>Inl\<close> is the end of the
  process.\<close>

definition main_connect :: "world \<Rightarrow> args \<Rightarrow> outcome + conn" where
  "main_connect W a =
     (if \<not> is_connected W then Inl (sys_exit [ConnectionFailed] 1)
      else
        (let out1 = [Banner, RpcLine (arg_rpc a)];
             chain = (case chain_id W of Inl _ \<Rightarrow> None | Inr c \<Rightarrow> Some c);
             out2 = (case chain of None \<Rightarrow> out1 | Some c \<Rightarrow> out1 @ [ChainIdLine c])
         in case block_number W of
              Inl e \<Rightarrow> Inl (uncaught out2 e)
            | Inr latest \<Rightarrow>
                (let from_block = (case arg_from_block a of
                                     None \<Rightarrow> max 0 (latest - 5000) | Some f \<Rightarrow> f);
                     to_block = (case arg_to_block a of None \<Rightarrow> latest | Some t \<Rightarrow> t)
                 in if from_block > to_block then Inl (sys_exit (out2 @ [InvalidRange]) 1)
                    else
                      (case to_checksum_address W (arg_address a) of
                         Inl e \<Rightarrow> Inl (uncaught out2 e)
                       | Inr ca \<Rightarrow>
                           Inr \<lparr>c_printed = out2 @ [AddressLine ca,
                                                       BlocksLine from_block to_block (arg_step a)],
                                c_chain_id = chain, c_from_block = from_block,
                                c_to_block = to_block, c_address = ca\<rparr>))))"

text \<open>\<open>main\<close> from there up to the fetch: the ABI, the signature map, the required
  events.\<close>

definition main_setup :: "world \<Rightarrow> args \<Rightarrow> outcome + ctx" where
  "main_setup W a =
     (case main_connect W a of
        Inl out \<Rightarrow> Inl out
      | Inr k \<Rightarrow>
          (case load_abi W (arg_abi a) of
             Inl e \<Rightarrow> Inl (sys_exit (c_printed k @ [AbiLoadFailed e]) 1)
           | Inr abi \<Rightarrow>
               (case build_event_signature_map (py_str W) abi of
                  Inl e \<Rightarrow> Inl (uncaught (c_printed k) e)
                | Inr tm \<Rightarrow>
                    (let out4 = c_printed k @ (if tm = [] then [NoEventsInAbi] else [])
                     in case load_required W (arg_expected_events a) of
                          Inl e \<Rightarrow> Inl (sys_exit (out4 @ [ExpectedEventsFailed e]) 1)
                        | Inr required \<Rightarrow>
                            Inr \<lparr>c_printed = out4, c_chain_id = c_chain_id k,
                                 c_from_block = c_from_block k, c_to_block = c_to_block k,
                                 c_address = c_address k, c_topic_map = tm,
                                 c_required = required\<rparr>))))"

text \<open>
  \<open>main\<close> after the fetch: the report and the exit code. The lines of a complete report,
  given the analysis and the sorted names (\<open>sorted_names\<close> is looked at only when
  \<open>counts_by_name\<close> is not empty).
\<close>

definition report_lines ::
  "args \<Rightarrow> ctx \<Rightarrow> log list \<Rightarrow> json analysis \<Rightarrow> json list \<Rightarrow> report_line list" where
  "report_lines a c logs an sorted_names =
     [LogsFetched (length logs)]
     @ (if counts_by_name an \<noteq> []
        then CountsHeader #
             map (\<lambda>n. CountLine n (py_get (counts_by_name an) n 0)) sorted_names
        else [NoEventsObserved])
     @ (if unknown_topics an \<noteq> []
        then [UnknownTopics (length (unknown_topics an)),
              Sample (join '', '' (take 10 (map fst (unknown_topics an)))
                      @ (if length (unknown_topics an) > 10 then '' ...'' else []))]
        else [NoUnknownTopics])
     @ (if missing_required an \<noteq> [] then [MissingRequired (join '', '' (missing_required an))]
        else if c_required c \<noteq> None then [AllRequiredObserved] else [])
     @ [Completed]
     @ (if arg_json a
        then [JsonSummary \<lparr>sum_rpc = arg_rpc a, sum_chain_id = c_chain_id c,
                            sum_address = c_address c, sum_from_block = c_from_block c,
                            sum_to_block = c_to_block c, sum_logs_fetched = length logs,
                            sum_analysis = an, sum_required_events = c_required c\<rparr>]
        else [])"

text \<open>
  The analysis and the sort are outside any \<open>try\<close>: an exception of the analysis ends the
  process after the line \<open>Logs fetched\<close>, an exception of \<open>sorted\<close> after the header of the
  counts, each with a traceback and status 1. Otherwise the report is printed to its end
  and the status is that of the exit code policy.
\<close>

definition finish :: "args \<Rightarrow> ctx \<Rightarrow> log list \<Rightarrow> outcome" where
  "finish a c logs =
     (case analyze_raw (c_topic_map c) logs (c_required c) of
        Inl e \<Rightarrow> uncaught (c_printed c @ [Report (LogsFetched (length logs))]) e
      | Inr an \<Rightarrow>
          (case (if counts_by_name an = [] then Inr []
                 else py_sorted (map fst (counts_by_name an))) of
             Inl e \<Rightarrow>
               uncaught (c_printed c @ [Report (LogsFetched (length logs)),
                                         Report CountsHeader]) e
           | Inr sorted_names \<Rightarrow>
               sys_exit (c_printed c @ map Report (report_lines a c logs an sorted_names))
                 (exit_policy an)))"

definition main :: "world \<Rightarrow> args \<Rightarrow> outcome option" where
  "main W a =
     (case main_setup W a of
        Inl out \<Rightarrow> Some out
      | Inr c \<Rightarrow>
          (case fetch_logs W (arg_address a) (c_from_block c) (c_to_block c)
                  (max 1 (arg_step a)) [] of
             None \<Rightarrow> None
           | Some (Inl e, _) \<Rightarrow> Some (sys_exit (c_printed c @ [FetchFailed e]) 1)
           | Some (Inr logs, _) \<Rightarrow> Some (finish a c logs)))"

section \<open>Example inputs\<close>

text \<open>
  A world for the example runs: a connected node on chain 1 at block 25 that answers a log
  query by the first block of the range (no logs where the table has no entry), an address
  check that accepts every address, and one JSON document behind every path. No run in this
  world has an event name that is not a string, so \<open>str()\<close> is never called there.
\<close>

definition str_unused :: "json \<Rightarrow> string" where
  "str_unused v = []"

definition example_world :: "json \<Rightarrow> (int \<times> (exn + log list)) list \<Rightarrow> world" where
  "example_world doc answers =
     \<lparr>is_connected = True, chain_id = Inr 1, block_number = Inr 25,
      get_logs = (\<lambda>hist addr a b. dict_get answers a (Inr [])),
      to_checksum_address = Inr,
      load_json = (\<lambda>path. Inr doc),
      py_str = str_unused\<rparr>"

definition example_args :: "int \<Rightarrow> args" where
  "example_args st =
     \<lparr>arg_rpc = ''http://localhost:8545'',
      arg_address = ''0x0000000000000000000000000000000000000001'',
      arg_abi = ''abi.json'', arg_from_block = Some 10, arg_to_block = Some 25,
      arg_step = st, arg_expected_events = None, arg_json = False, arg_timeout = 30\<rparr>"






definition transfer_event :: json where
  "transfer_event =
     JObj [(''anonymous'', JBool False),
           (''inputs'', JArr [JObj [(''indexed'', JBool True), (''name'', JStr ''from''),
                                    (''type'', JStr ''address'')],
                              JObj [(''indexed'', JBool True), (''name'', JStr ''to''),
                                    (''type'', JStr ''address'')],
                              JObj [(''indexed'', JBool False), (''name'', JStr ''value''),
                                    (''type'', JStr ''uint256'')]]),
           (''name'', JStr ''Transfer''),
           (''type'', JStr ''event'')]"

section \<open>Properties of the range chunker\<close>

lemma int_div_bounds:
  fixes a b :: int
  assumes "0 < b"
  shows "a div b * b \<le> a" and "a < a div b * b + b"
proof -
  have "a div b * b + a mod b = a" by (rule div_mult_mod_eq)
  moreover have "0 \<le> a mod b" "a mod b < b" using assms by simp_all
  ultimately show "a div b * b \<le> a" and "a < a div b * b + b" by linarith+
qed

lemma ceil_div_int:
  fixes a b :: int
  assumes "0 < b"
  shows "- (- a div b) = (a + b - 1) div b"
proof -
  define q where "q = (a + b - 1) div b"
  have 1: "q * b \<le> a + b - 1" and 2: "a + b - 1 < q * b + b"
    unfolding q_def using int_div_bounds[OF assms, of "a + b - 1"] by simp_all
  have "- a div b = - q"
  proof (rule int_div_pos_eq)
    show "- a = b * (- q) + (q * b - a)" by (simp add: algebra_simps)
    show "0 \<le> q * b - a" using 2 by simp
    show "q * b - a < b" using 1 by simp
  qed
  then show ?thesis by (simp add: q_def)
qed

lemma chunk_count_done: "1 \<le> step \<Longrightarrow> end < cur \<Longrightarrow> chunk_count cur end step = 0"
proof -
  assume a: "1 \<le> step" "end < cur"
  then have "(end - cur + step) div step \<le> (step - 1) div step"
    by (intro zdiv_mono1) simp_all
  also have "(step - 1) div step = 0"
    using a by (simp add: div_pos_pos_trivial)
  finally show ?thesis by (simp add: chunk_count_def)
qed

lemma chunk_count_last:
  assumes "1 \<le> step" "cur \<le> end" "end \<le> cur + step - 1"
  shows "chunk_count cur end step = 1"
proof -
  have "(end - cur + step) div step = (end - cur) div step + 1"
    using assms by simp
  moreover have "(end - cur) div step = 0"
    using assms by (simp add: div_pos_pos_trivial)
  ultimately show ?thesis by (simp add: chunk_count_def)
qed

lemma chunk_count_more:
  assumes "1 \<le> step" "cur + step - 1 < end"
  shows "chunk_count cur end step = Suc (chunk_count (cur + step) end step)"
proof -
  have "(end - cur + step) div step = (end - (cur + step) + step) div step + 1"
    using assms by simp
  moreover have "0 \<le> (end - (cur + step) + step) div step"
    using assms by (simp add: pos_imp_zdiv_nonneg_iff)
  ultimately show ?thesis by (simp add: chunk_count_def nat_add_distrib)
qed

lemma chunk_at_shift:
  "chunk_at cur end step (Suc k) = chunk_at (cur + step) end step k"
  by (simp add: chunk_at_def algebra_simps)

lemma chunk_list_done: "1 \<le> step \<Longrightarrow> end < cur \<Longrightarrow> chunk_list cur end step = []"
  by (simp add: chunk_list_def chunk_count_done)

lemma chunk_list_last:
  "1 \<le> step \<Longrightarrow> cur \<le> end \<Longrightarrow> end \<le> cur + step - 1
     \<Longrightarrow> chunk_list cur end step = [(cur, end)]"
  by (simp add: chunk_list_def chunk_count_last chunk_at_def)

lemma chunk_list_more:
  assumes "1 \<le> step" "cur + step - 1 < end"
  shows "chunk_list cur end step = (cur, cur + step - 1) # chunk_list (cur + step) end step"
proof -
  let ?n = "chunk_count (cur + step) end step"
  have "chunk_list cur end step = map (chunk_at cur end step) (0 # map Suc [0..<?n])"
    unfolding chunk_list_def chunk_count_more[OF assms]
    by (simp only: upt_conv_Cons[of 0] map_Suc_upt)
  also have "\<dots> = chunk_at cur end step 0 # map (chunk_at (cur + step) end step) [0..<?n]"
    by (simp add: chunk_at_shift comp_def)
  also have "chunk_at cur end step 0 = (cur, cur + step - 1)"
    using assms by (simp add: chunk_at_def)
  finally show ?thesis by (simp add: chunk_list_def)
qed

text \<open>With a positive step the loop ends, and its result is the closed form.\<close>

lemma chunk_loop_closed:
  "1 \<le> step \<Longrightarrow> chunk_loop cur end step ranges = Some (ranges @ chunk_list cur end step)"
proof (induction "nat (end - cur + 1)" arbitrary: cur ranges rule: less_induct)
  case less
  show ?case
  proof (cases "cur \<le> end")
    case False
    then show ?thesis
      using less.prems by (subst chunk_loop.simps) (simp add: chunk_list_done)
  next
    case True
    show ?thesis
    proof (cases "cur + step - 1 < end")
      case more: True
      have "nat (end - (cur + step) + 1) < nat (end - cur + 1)"
        using True less.prems by simp
      from less.hyps[OF this less.prems]
      have "chunk_loop (cur + step) end step (ranges @ [(cur, cur + step - 1)])
              = Some ((ranges @ [(cur, cur + step - 1)]) @ chunk_list (cur + step) end step)" .
      then show ?thesis
        using True more less.prems
        by (subst chunk_loop.simps) (simp add: Let_def chunk_list_more min_def)
    next
      case last: False
      have "chunk_loop (end + 1) end step (ranges @ [(cur, end)]) = Some (ranges @ [(cur, end)])"
        by (subst chunk_loop.simps) simp
      then show ?thesis
        using True last less.prems
        by (subst chunk_loop.simps) (simp add: Let_def chunk_list_last min_def)
    qed
  qed
qed

lemma chunk_ranges_closed:
  "1 \<le> step \<Longrightarrow> chunk_ranges start end step = Some (chunk_list start end step)"
  by (simp add: chunk_ranges_def chunk_loop_closed)

text \<open>With a step below 1 and a non-empty range the loop never ends.\<close>

lemma chunk_loop_diverges:
  assumes "step \<le> 0" "cur \<le> end"
  shows "chunk_loop cur end step ranges = None"
proof -
  have "\<not> (step \<le> 0 \<and> cur \<le> end)" if "chunk_loop cur end step ranges = Some y" for y
  proof (induction cur "end" step ranges y rule: chunk_loop.raw_induct)
    case (1 f cur e step ranges y)
    show ?case
    proof
      assume a: "step \<le> 0 \<and> cur \<le> e"
      then have m: "min (cur + step - 1) e = cur + step - 1" by simp
      with a 1 have fy: "f (cur + step) e step (ranges @ [(cur, cur + step - 1)]) = Some y"
        by (simp add: Let_def)
      have "\<not> (step \<le> 0 \<and> cur + step \<le> e)"
        using 1 fy by blast
      with a show False by simp
    qed
  qed (fact that)
  with assms show ?thesis
    by (cases "chunk_loop cur end step ranges") auto
qed

lemma chunk_count_bounds:
  assumes "1 \<le> step" "start \<le> end"
  shows "int (chunk_count start end step) * step \<le> end - start + step"
    and "end - start < int (chunk_count start end step) * step"
    and "0 < chunk_count start end step"
proof -
  define a where "a = end - start + step"
  have q: "0 \<le> a div step" using assms by (simp add: pos_imp_zdiv_nonneg_iff a_def)
  then have n: "int (chunk_count start end step) = a div step"
    by (simp add: chunk_count_def a_def)
  have "0 < step" using assms by simp
  from int_div_bounds[OF this, of a]
  have "a div step * step \<le> a" and "a < a div step * step + step" .
  then show "int (chunk_count start end step) * step \<le> end - start + step"
    and 2: "end - start < int (chunk_count start end step) * step"
    unfolding n using a_def by linarith+
  show "0 < chunk_count start end step"
  proof (rule ccontr)
    assume "\<not> 0 < chunk_count start end step"
    then have "chunk_count start end step = 0" by simp
    with 2 assms show False by simp
  qed
qed

lemma chunk_count_ceiling:
  assumes "1 \<le> step" "start \<le> end"
  shows "int (chunk_count start end step)
           = \<lceil>real_of_int (end - start + 1) / real_of_int step\<rceil>"
proof -
  define x where "x = (end - start + 1 + step - 1) div step"
  have e: "end - start + 1 + step - 1 = end - start + step" by simp
  have "0 \<le> x"
    unfolding x_def using assms by (subst pos_imp_zdiv_nonneg_iff) simp_all
  then have "int (nat x) = x" by simp
  then have "int (chunk_count start end step) = (end - start + 1 + step - 1) div step"
    unfolding x_def chunk_count_def e .
  also have "\<dots> = - (- (end - start + 1) div step)"
    using assms by (subst ceil_div_int) simp_all
  finally show ?thesis by (simp only: ceiling_divide_eq_div)
qed

lemma step_mult_mono:
  fixes step :: int
  assumes "1 \<le> step" "j \<le> k"
  shows "int j * step \<le> int k * step"
  using assms by (intro mult_right_mono) simp_all

lemma chunk_at_inner:
  assumes "1 \<le> step" "start \<le> end" "Suc k < chunk_count start end step"
  shows "chunk_at start end step k = (start + int k * step, start + int k * step + step - 1)"
proof -
  have "int (Suc (Suc k)) * step \<le> int (chunk_count start end step) * step"
    using assms by (intro step_mult_mono) simp_all
  with chunk_count_bounds(1)[OF assms(1,2)]
  have "int k * step + step \<le> end - start" by (simp add: algebra_simps)
  then show ?thesis by (simp add: chunk_at_def)
qed

lemma chunk_at_fst_le_end:
  assumes "1 \<le> step" "start \<le> end" "k < chunk_count start end step"
  shows "start + int k * step \<le> end"
proof -
  have "int (Suc k) * step \<le> int (chunk_count start end step) * step"
    using assms by (intro step_mult_mono) simp_all
  with chunk_count_bounds(1)[OF assms(1,2)]
  show ?thesis by (simp add: algebra_simps)
qed

lemma chunk_at_final:
  assumes "1 \<le> step" "start \<le> end" "Suc k = chunk_count start end step"
  shows "snd (chunk_at start end step k) = end"
proof -
  have "end - start < int (Suc k) * step"
    using chunk_count_bounds(2)[OF assms(1,2)] assms(3) by simp
  then show ?thesis by (simp add: chunk_at_def algebra_simps)
qed

lemma chunk_at_bounds:
  assumes "1 \<le> step" "start \<le> end" "k < chunk_count start end step"
  shows "fst (chunk_at start end step k) \<le> snd (chunk_at start end step k)"
    and "snd (chunk_at start end step k) - fst (chunk_at start end step k) + 1 \<le> step"
    and "start \<le> fst (chunk_at start end step k)"
    and "snd (chunk_at start end step k) \<le> end"
proof -
  have "0 \<le> int k * step" using assms(1) by simp
  with chunk_at_fst_le_end[OF assms] assms(1)
  show "fst (chunk_at start end step k) \<le> snd (chunk_at start end step k)"
    and "snd (chunk_at start end step k) - fst (chunk_at start end step k) + 1 \<le> step"
    and "start \<le> fst (chunk_at start end step k)"
    and "snd (chunk_at start end step k) \<le> end"
    by (simp_all add: chunk_at_def)
qed

lemma chunk_at_ascending:
  assumes "1 \<le> step" "j < k"
  shows "snd (chunk_at start end step j) < fst (chunk_at start end step k)"
proof -
  have "int (Suc j) * step \<le> int k * step"
    using assms by (intro step_mult_mono) simp_all
  then have "start + int j * step + step - 1 < start + int k * step"
    by (simp add: algebra_simps)
  moreover have "snd (chunk_at start end step j) \<le> start + int j * step + step - 1"
    by (simp add: chunk_at_def)
  ultimately show ?thesis by (simp add: chunk_at_def)
qed

lemma chunk_at_cover:
  assumes "1 \<le> step" "start \<le> x" "x \<le> end"
  shows "\<exists>k < chunk_count start end step.
           fst (chunk_at start end step k) \<le> x \<and> x \<le> snd (chunk_at start end step k)"
proof -
  define q where "q = (x - start) div step"
  have pos: "0 < step" using assms by simp
  have q0: "0 \<le> q" unfolding q_def using assms by (subst pos_imp_zdiv_nonneg_iff) simp_all
  from int_div_bounds[OF pos, of "x - start"]
  have lo: "q * step \<le> x - start" and hi: "x - start < q * step + step"
    unfolding q_def by simp_all
  have se: "start \<le> end" using assms by simp
  have "nat q < chunk_count start end step"
  proof (rule ccontr)
    assume "\<not> nat q < chunk_count start end step"
    then have "int (chunk_count start end step) * step \<le> int (nat q) * step"
      using assms(1) by (intro step_mult_mono) simp_all
    with q0 lo chunk_count_bounds(2)[OF assms(1) se] assms(3) show False by simp
  qed
  moreover have "fst (chunk_at start end step (nat q)) \<le> x"
    using q0 lo by (simp add: chunk_at_def)
  moreover have "x \<le> snd (chunk_at start end step (nat q))"
    using q0 hi assms(3) by (simp add: chunk_at_def)
  ultimately show ?thesis by blast
qed

lemma chunk_list_nth:
  "k < chunk_count start end step \<Longrightarrow> chunk_list start end step ! k = chunk_at start end step k"
  by (simp add: chunk_list_def)

lemma chunk_list_length: "length (chunk_list start end step) = chunk_count start end step"
  by (simp add: chunk_list_def)

lemma chunk_list_cover:
  assumes "1 \<le> step" "start \<le> end"
  shows "(\<Union>(a, b) \<in> set (chunk_list start end step). {a..b}) = {start..end}"
proof (rule set_eqI)
  fix x
  show "x \<in> (\<Union>(a, b) \<in> set (chunk_list start end step). {a..b}) \<longleftrightarrow> x \<in> {start..end}"
  proof
    assume "x \<in> (\<Union>(a, b) \<in> set (chunk_list start end step). {a..b})"
    then obtain k where k: "k < chunk_count start end step"
      and x: "fst (chunk_at start end step k) \<le> x" "x \<le> snd (chunk_at start end step k)"
      by (auto simp: chunk_list_def)
    from chunk_at_bounds(3,4)[OF assms k] x show "x \<in> {start..end}" by simp
  next
    assume "x \<in> {start..end}"
    then have "start \<le> x" "x \<le> end" by simp_all
    from chunk_at_cover[OF assms(1) this]
    obtain k where k: "k < chunk_count start end step"
      and x: "fst (chunk_at start end step k) \<le> x" "x \<le> snd (chunk_at start end step k)"
      by blast
    have "chunk_at start end step k \<in> set (chunk_list start end step)"
      using k by (simp add: chunk_list_def)
    with x show "x \<in> (\<Union>(a, b) \<in> set (chunk_list start end step). {a..b})"
      by (force simp: case_prod_unfold)
  qed
qed

text \<open>
  C4. For \<open>start \<le> end\<close> and \<open>step \<ge> 1\<close>, \<open>chunk_ranges\<close> returns a list of inclusive
  sub-ranges in ascending order that partitions \<open>[start, end]\<close>: the first begins at \<open>start\<close>,
  the last ends at \<open>end\<close>, each begins one past the end of the one before (no gap, no
  overlap), each is non-empty and at most \<open>step\<close> long, their union is \<open>[start, end]\<close>, and
  there are \<open>ceil((end - start + 1) / step)\<close> of them; \<open>chunk_ranges(10, 25, 10)\<close> is
  \<open>[(10, 19), (20, 25)]\<close>.
\<close>

theorem chunk_ranges_partition:
  assumes "start \<le> end" and "1 \<le> step"
  shows "\<exists>rs. chunk_ranges start end step = Some rs
            \<and> int (length rs) = \<lceil>real_of_int (end - start + 1) / real_of_int step\<rceil>
            \<and> rs \<noteq> [] \<and> fst (hd rs) = start \<and> snd (last rs) = end
            \<and> (\<forall>k < length rs. fst (rs ! k) \<le> snd (rs ! k)
                                  \<and> snd (rs ! k) - fst (rs ! k) + 1 \<le> step)
            \<and> (\<forall>k. Suc k < length rs \<longrightarrow> fst (rs ! Suc k) = snd (rs ! k) + 1)
            \<and> (\<forall>j k. j < k \<and> k < length rs \<longrightarrow> snd (rs ! j) < fst (rs ! k))
            \<and> (\<Union>(a, b) \<in> set rs. {a..b}) = {start..end}
            \<and> chunk_ranges 10 25 10 = Some [(10, 19), (20, 25)]"
proof -
  let ?rs = "chunk_list start end step"
  let ?n = "chunk_count start end step"
  note se = assms(2) assms(1)
  have len: "length ?rs = ?n" by (rule chunk_list_length)
  have pos: "0 < ?n" by (rule chunk_count_bounds(3)[OF se])
  have 1: "chunk_ranges start end step = Some ?rs"
    by (rule chunk_ranges_closed[OF assms(2)])
  have 2: "int (length ?rs) = \<lceil>real_of_int (end - start + 1) / real_of_int step\<rceil>"
    unfolding len by (rule chunk_count_ceiling[OF se])
  have 3: "?rs \<noteq> []" using pos len by auto
  have 4: "fst (hd ?rs) = start"
    using pos 3 by (simp add: hd_conv_nth chunk_list_nth len chunk_at_def)
  have 5: "snd (last ?rs) = end"
  proof -
    have "last ?rs = chunk_at start end step (?n - 1)"
      using pos 3 by (simp add: last_conv_nth len chunk_list_nth)
    moreover have "Suc (?n - 1) = ?n" using pos by simp
    ultimately show ?thesis using chunk_at_final[OF se] by simp
  qed
  have 6: "\<forall>k < length ?rs. fst (?rs ! k) \<le> snd (?rs ! k)
                                \<and> snd (?rs ! k) - fst (?rs ! k) + 1 \<le> step"
    using chunk_at_bounds(1,2)[OF se] by (simp add: len chunk_list_nth)
  have 7: "\<forall>k. Suc k < length ?rs \<longrightarrow> fst (?rs ! Suc k) = snd (?rs ! k) + 1"
  proof (intro allI impI)
    fix k assume k: "Suc k < length ?rs"
    then have "Suc k < ?n" "k < ?n" by (simp_all add: len)
    then show "fst (?rs ! Suc k) = snd (?rs ! k) + 1"
      using chunk_at_inner[OF se \<open>Suc k < ?n\<close>]
      by (simp add: chunk_list_nth chunk_at_def algebra_simps)
  qed
  have 8: "\<forall>j k. j < k \<and> k < length ?rs \<longrightarrow> snd (?rs ! j) < fst (?rs ! k)"
    using chunk_at_ascending[OF assms(2)] by (simp add: len chunk_list_nth)
  have 9: "(\<Union>(a, b) \<in> set ?rs. {a..b}) = {start..end}"
    by (rule chunk_list_cover[OF se])
  have 10: "chunk_ranges 10 25 10 = Some [(10, 19), (20, 25)]"
    by (simp add: chunk_ranges_def chunk_loop.simps)
  from 1 2 3 4 5 6 7 8 9 10 show ?thesis by blast
qed

theorem chunk_ranges_partition_witness:
  "(10::int) \<le> 25 \<and> (1::int) \<le> 10 \<and>
   (\<exists>rs. chunk_ranges 10 25 10 = Some rs
         \<and> int (length rs) = \<lceil>real_of_int (25 - 10 + 1) / real_of_int 10\<rceil>
         \<and> fst (hd rs) = 10 \<and> snd (last rs) = 25
         \<and> (\<forall>k < length rs. snd (rs ! k) - fst (rs ! k) + 1 \<le> 10)
         \<and> (\<Union>(a, b) \<in> set rs. {a..b}) = {10..25})"
proof -
  have a: "(10::int) \<le> 25" and b: "(1::int) \<le> 10" by simp_all
  from chunk_ranges_partition[OF a b] obtain rs where
    "chunk_ranges 10 25 10 = Some rs"
    "int (length rs) = \<lceil>real_of_int (25 - 10 + 1) / real_of_int 10\<rceil>"
    "fst (hd rs) = 10" "snd (last rs) = 25"
    "\<forall>k < length rs. fst (rs ! k) \<le> snd (rs ! k) \<and> snd (rs ! k) - fst (rs ! k) + 1 \<le> 10"
    "(\<Union>(a, b) \<in> set rs. {a..b}) = {10..25}"
    by blast
  with a b show ?thesis by blast
qed

section \<open>Properties of the classifier\<close>


lemma dict_get_Cons:
  "dict_get ((k, v) # d) k' x = (if k' = k then v else dict_get d k' x)"
  by (simp add: dict_get_def)


lemma weight_Nil: "weight P [] = 0"
  by (simp add: weight_def)






lemma analyze_topics_count:
  "topics lg = Some (t # ts) \<Longrightarrow>
   analyze_topics tm [lg] cbt unk
     = (AList.update (to_hex t) (dict_get cbt (to_hex t) 0 + 1) cbt,
        if map_of tm (to_hex t) = None
        then AList.update (to_hex t) (dict_get unk (to_hex t) 0 + 1) unk else unk)"
  by simp



























section \<open>Properties of the signature mapper\<close>

lemma length_keccak_round: "length (keccak_round a rc) = 25"
  by (simp add: keccak_round_def iota_def chi_def)

lemma length_foldl_keccak_round:
  "length a = 25 \<Longrightarrow> length (foldl keccak_round a rcs) = 25"
  by (induction rcs arbitrary: a) (simp_all add: length_keccak_round)

lemma length_keccak_f: "length a = 25 \<Longrightarrow> length (keccak_f a) = 25"
  by (simp add: keccak_f_def length_foldl_keccak_round)

lemma length_absorb_block: "length (absorb_block a blk) = 25"
  by (simp add: absorb_block_def length_keccak_f)

lemma length_foldl_absorb_block:
  "length a = 25 \<Longrightarrow> length (foldl absorb_block a bs) = 25"
  by (induction bs arbitrary: a) (simp_all add: length_absorb_block)

lemma length_concat_bytes_of_lane: "length (concat (map bytes_of_lane ls)) = 8 * length ls"
  by (induction ls) (simp_all add: bytes_of_lane_def)

text \<open>The digest has 32 bytes.\<close>

lemma length_keccak: "length (keccak m) = 32"
  by (simp add: keccak_def Let_def length_concat_bytes_of_lane length_foldl_absorb_block)

lemma length_hex: "length (hex bs) = 2 * length bs"
  by (induction bs) (simp_all add: hex_def hex_byte_def)

lemma hexdigit_lower: "n < 16 \<Longrightarrow> hexdigit n \<in> set ''0123456789abcdef''"
  unfolding hexdigit_def by (rule nth_mem) simp

lemma set_hex: "set (hex bs) \<subseteq> set ''0123456789abcdef''"
proof -
  define S where "S = set ''0123456789abcdef''"
  have "set (hex_byte b) \<subseteq> S" for b
  proof -
    have "unat b < 256" using unsigned_less[of b] by simp
    then have "unat b div 16 < 16" "unat b mod 16 < 16" by simp_all
    then have "hexdigit (unat b div 16) \<in> S" "hexdigit (unat b mod 16) \<in> S"
      unfolding S_def by (simp_all only: hexdigit_lower)
    then show ?thesis by (simp add: hex_byte_def)
  qed
  then have "set (hex bs) \<subseteq> S" by (auto simp: hex_def)
  then show ?thesis by (simp only: S_def)
qed

lemma length_topic_of: "length (topic_of sg) = 66"
  by (simp add: topic_of_def length_hex length_keccak)

lemma upt_0_5: "[0..<5] = [0, 1, 2, 3, 4]"
  by code_simp

lemma upt_0_8: "[0..<8] = [0, 1, 2, 3, 4, 5, 6, 7]"
  by code_simp

lemma upt_0_25:
  "[0..<25] = [0, 1, 2, 3, 4, 5, 6, 7, 8, 9, 10, 11, 12, 13, 14, 15, 16, 17, 18, 19, 20, 21, 22,
               23, 24]"
  by code_simp

text \<open>
  A test vector: the digest of the signature of the ERC-20 \<open>Transfer\<close> event, the topic
  \<open>0xddf252ad\<dots>\<close> of every token transfer. The message fits in one block; the state
  after each of the 24 rounds is given and checked round by round.
\<close>

lemma transfer_utf8:
  "utf8 ''Transfer(address,address,uint256)''
     = [0x54, 0x72, 0x61, 0x6E, 0x73, 0x66, 0x65, 0x72, 0x28, 0x61, 0x64, 0x64, 0x72, 0x65, 0x73, 0x73,
     0x2C, 0x61, 0x64, 0x64, 0x72, 0x65, 0x73, 0x73, 0x2C, 0x75, 0x69, 0x6E, 0x74, 0x32, 0x35, 0x36,
     0x29]"
  by (simp add: utf8_def)

lemma transfer_pad:
  "pad [0x54, 0x72, 0x61, 0x6E, 0x73, 0x66, 0x65, 0x72, 0x28, 0x61, 0x64, 0x64, 0x72, 0x65, 0x73, 0x73,
     0x2C, 0x61, 0x64, 0x64, 0x72, 0x65, 0x73, 0x73, 0x2C, 0x75, 0x69, 0x6E, 0x74, 0x32, 0x35, 0x36,
     0x29]
     = [0x54, 0x72, 0x61, 0x6E, 0x73, 0x66, 0x65, 0x72, 0x28, 0x61, 0x64, 0x64, 0x72, 0x65, 0x73, 0x73,
     0x2C, 0x61, 0x64, 0x64, 0x72, 0x65, 0x73, 0x73, 0x2C, 0x75, 0x69, 0x6E, 0x74, 0x32, 0x35, 0x36,
     0x29, 0x01, 0x00, 0x00, 0x00, 0x00, 0x00, 0x00, 0x00, 0x00, 0x00, 0x00, 0x00, 0x00, 0x00, 0x00,
     0x00, 0x00, 0x00, 0x00, 0x00, 0x00, 0x00, 0x00, 0x00, 0x00, 0x00, 0x00, 0x00, 0x00, 0x00, 0x00,
     0x00, 0x00, 0x00, 0x00, 0x00, 0x00, 0x00, 0x00, 0x00, 0x00, 0x00, 0x00, 0x00, 0x00, 0x00, 0x00,
     0x00, 0x00, 0x00, 0x00, 0x00, 0x00, 0x00, 0x00, 0x00, 0x00, 0x00, 0x00, 0x00, 0x00, 0x00, 0x00,
     0x00, 0x00, 0x00, 0x00, 0x00, 0x00, 0x00, 0x00, 0x00, 0x00, 0x00, 0x00, 0x00, 0x00, 0x00, 0x00,
     0x00, 0x00, 0x00, 0x00, 0x00, 0x00, 0x00, 0x00, 0x00, 0x00, 0x00, 0x00, 0x00, 0x00, 0x00, 0x00,
     0x00, 0x00, 0x00, 0x00, 0x00, 0x00, 0x00, 0x80]"
  by code_simp

lemma transfer_absorbed:
  "map (\<lambda>i. if i < 17
              then replicate 25 (0 :: lane) ! i
                   XOR lane_of_bytes (take 8 (drop (8 * i)
     [0x54, 0x72, 0x61, 0x6E, 0x73, 0x66, 0x65, 0x72, 0x28, 0x61, 0x64, 0x64, 0x72, 0x65, 0x73, 0x73,
     0x2C, 0x61, 0x64, 0x64, 0x72, 0x65, 0x73, 0x73, 0x2C, 0x75, 0x69, 0x6E, 0x74, 0x32, 0x35, 0x36,
     0x29, 0x01, 0x00, 0x00, 0x00, 0x00, 0x00, 0x00, 0x00, 0x00, 0x00, 0x00, 0x00, 0x00, 0x00, 0x00,
     0x00, 0x00, 0x00, 0x00, 0x00, 0x00, 0x00, 0x00, 0x00, 0x00, 0x00, 0x00, 0x00, 0x00, 0x00, 0x00,
     0x00, 0x00, 0x00, 0x00, 0x00, 0x00, 0x00, 0x00, 0x00, 0x00, 0x00, 0x00, 0x00, 0x00, 0x00, 0x00,
     0x00, 0x00, 0x00, 0x00, 0x00, 0x00, 0x00, 0x00, 0x00, 0x00, 0x00, 0x00, 0x00, 0x00, 0x00, 0x00,
     0x00, 0x00, 0x00, 0x00, 0x00, 0x00, 0x00, 0x00, 0x00, 0x00, 0x00, 0x00, 0x00, 0x00, 0x00, 0x00,
     0x00, 0x00, 0x00, 0x00, 0x00, 0x00, 0x00, 0x00, 0x00, 0x00, 0x00, 0x00, 0x00, 0x00, 0x00, 0x00,
     0x00, 0x00, 0x00, 0x00, 0x00, 0x00, 0x00, 0x80]))
              else replicate 25 0 ! i) [0..<25]
     = [0x726566736E617254, 0x7373657264646128, 0x737365726464612C, 0x363532746E69752C,
     0x0000000000000129, 0x0000000000000000, 0x0000000000000000, 0x0000000000000000,
     0x0000000000000000, 0x0000000000000000, 0x0000000000000000, 0x0000000000000000,
     0x0000000000000000, 0x0000000000000000, 0x0000000000000000, 0x0000000000000000,
     0x8000000000000000, 0x0000000000000000, 0x0000000000000000, 0x0000000000000000,
     0x0000000000000000, 0x0000000000000000, 0x0000000000000000, 0x0000000000000000,
     0x0000000000000000]"
  by (simp add: upt_0_25 lane_of_bytes_def)

lemma transfer_round_0:
  "keccak_round
     [0x726566736E617254, 0x7373657264646128, 0x737365726464612C, 0x363532746E69752C,
     0x0000000000000129, 0x0000000000000000, 0x0000000000000000, 0x0000000000000000,
     0x0000000000000000, 0x0000000000000000, 0x0000000000000000, 0x0000000000000000,
     0x0000000000000000, 0x0000000000000000, 0x0000000000000000, 0x0000000000000000,
     0x8000000000000000, 0x0000000000000000, 0x0000000000000000, 0x0000000000000000,
     0x0000000000000000, 0x0000000000000000, 0x0000000000000000, 0x0000000000000000,
     0x0000000000000000]
     0x0000000000000001
   = [0xB0D8A82766AD34A8, 0x9104C14C1D0B5042, 0xE5FBA4DA482DC556, 0xAE4F8C996D46EF6C,
     0xF4A4EDE2FC217EFD, 0x76B4846362567570, 0xE92AAA2929DDCBEF, 0x36D4770544421AED,
     0x560153D455D2D0C5, 0x9AE80AAB4F1FDBE1, 0xEF691B8B55DF8081, 0xDD76749E2EB3DC37,
     0xE4C9E9C7F884FDC3, 0x3B9E027A2B89A492, 0x2B93470725C3C7BD, 0x97A71495EE17EFE6,
     0x0CC137CF2F54E3C0, 0x70807DBE94841231, 0x014950DB492BD418, 0x767B506F720C646B,
     0x7BDADB7371F9F3DF, 0x3F3F88363932B2B1, 0x17C0C07B6DDD497B, 0xB896F8EDE885F314,
     0xD62F92DE12A4C012]"
  unfolding keccak_round_def
  apply (simp add: theta_def rotl64_def Let_def upt_0_5 upt_0_25)
  apply (simp add: rho_pi_def rotation_offsets_def rotl64_def Let_def upt_0_25)
  apply (simp add: chi_def Let_def upt_0_25)
  apply (simp add: iota_def)
  done

lemma transfer_round_1:
  "keccak_round
     [0xB0D8A82766AD34A8, 0x9104C14C1D0B5042, 0xE5FBA4DA482DC556, 0xAE4F8C996D46EF6C,
     0xF4A4EDE2FC217EFD, 0x76B4846362567570, 0xE92AAA2929DDCBEF, 0x36D4770544421AED,
     0x560153D455D2D0C5, 0x9AE80AAB4F1FDBE1, 0xEF691B8B55DF8081, 0xDD76749E2EB3DC37,
     0xE4C9E9C7F884FDC3, 0x3B9E027A2B89A492, 0x2B93470725C3C7BD, 0x97A71495EE17EFE6,
     0x0CC137CF2F54E3C0, 0x70807DBE94841231, 0x014950DB492BD418, 0x767B506F720C646B,
     0x7BDADB7371F9F3DF, 0x3F3F88363932B2B1, 0x17C0C07B6DDD497B, 0xB896F8EDE885F314,
     0xD62F92DE12A4C012]
     0x0000000000008082
   = [0x788E8EFE80FA4F2D, 0x656BBA95E7BAE4E7, 0x04583D132D96341B, 0x672986D81B358921,
     0x43A33F61C4B829F4, 0xB8AC39BEFF5EA0FA, 0xBF160787D17E2266, 0xBB5EDBC49CF77CD1,
     0x69D86DAE2B43475F, 0x89BD134E40B725FF, 0x4AF24D1FB30ABA0D, 0x1F4F5C5641BF9B13,
     0xD3B7620062401CF1, 0x8D953C4ABA6AAF0A, 0xF72F7EA82BD7CC63, 0x889C2BC448E65520,
     0xD18A2FEBEF386890, 0x8A2C37E6B6CD5AE6, 0x1B47E7B02E784A5C, 0xD762E2816801B48F,
     0xB150DED3CCF360F1, 0xAB6F8A9ABB56B192, 0x16C089EC86F30850, 0x09D9D39E8A6CD420,
     0x6E0FFE9F817A73D7]"
  unfolding keccak_round_def
  apply (simp add: theta_def rotl64_def Let_def upt_0_5 upt_0_25)
  apply (simp add: rho_pi_def rotation_offsets_def rotl64_def Let_def upt_0_25)
  apply (simp add: chi_def Let_def upt_0_25)
  apply (simp add: iota_def)
  done

lemma transfer_round_2:
  "keccak_round
     [0x788E8EFE80FA4F2D, 0x656BBA95E7BAE4E7, 0x04583D132D96341B, 0x672986D81B358921,
     0x43A33F61C4B829F4, 0xB8AC39BEFF5EA0FA, 0xBF160787D17E2266, 0xBB5EDBC49CF77CD1,
     0x69D86DAE2B43475F, 0x89BD134E40B725FF, 0x4AF24D1FB30ABA0D, 0x1F4F5C5641BF9B13,
     0xD3B7620062401CF1, 0x8D953C4ABA6AAF0A, 0xF72F7EA82BD7CC63, 0x889C2BC448E65520,
     0xD18A2FEBEF386890, 0x8A2C37E6B6CD5AE6, 0x1B47E7B02E784A5C, 0xD762E2816801B48F,
     0xB150DED3CCF360F1, 0xAB6F8A9ABB56B192, 0x16C089EC86F30850, 0x09D9D39E8A6CD420,
     0x6E0FFE9F817A73D7]
     0x800000000000808A
   = [0x007CC839287249B6, 0xBC3F6ACB57CB31FF, 0x6334C9FDAE228AD9, 0x88D00424D65C3544,
     0x7444694314B722B0, 0x7756CB78C9ECC212, 0xCC7FFC91ACA5EBEC, 0x99481E5FA90942AD,
     0xE6B29845CA630C36, 0xB9D575FE993DCBB6, 0x6D3382CBD25572D8, 0x7F0175E8CFC08409,
     0x0B2857674CEACBBF, 0xAD0783D73FF58146, 0xF28744DD9701AE89, 0x1B4E21BF97B30737,
     0xA70B8E7425CC76DB, 0x209A8F2C8A1C39EB, 0x49F5E4679C308104, 0x28D1F27451A8C514,
     0xA22F8FC0C2E583EE, 0x51CEDE03A9B8E7B7, 0x77F83F0074C48541, 0xD8AE4CA6DD7AEF34,
     0xBAE7D181F74D7E0A]"
  unfolding keccak_round_def
  apply (simp add: theta_def rotl64_def Let_def upt_0_5 upt_0_25)
  apply (simp add: rho_pi_def rotation_offsets_def rotl64_def Let_def upt_0_25)
  apply (simp add: chi_def Let_def upt_0_25)
  apply (simp add: iota_def)
  done

lemma transfer_round_3:
  "keccak_round
     [0x007CC839287249B6, 0xBC3F6ACB57CB31FF, 0x6334C9FDAE228AD9, 0x88D00424D65C3544,
     0x7444694314B722B0, 0x7756CB78C9ECC212, 0xCC7FFC91ACA5EBEC, 0x99481E5FA90942AD,
     0xE6B29845CA630C36, 0xB9D575FE993DCBB6, 0x6D3382CBD25572D8, 0x7F0175E8CFC08409,
     0x0B2857674CEACBBF, 0xAD0783D73FF58146, 0xF28744DD9701AE89, 0x1B4E21BF97B30737,
     0xA70B8E7425CC76DB, 0x209A8F2C8A1C39EB, 0x49F5E4679C308104, 0x28D1F27451A8C514,
     0xA22F8FC0C2E583EE, 0x51CEDE03A9B8E7B7, 0x77F83F0074C48541, 0xD8AE4CA6DD7AEF34,
     0xBAE7D181F74D7E0A]
     0x8000000080008000
   = [0xDF13DCA761F9AA43, 0xCE20963EDBAFEA64, 0x87030A9398532A03, 0x64BAFE9AC9FEB024,
     0xEECF342DCED33B8A, 0x697D11B0F72A683E, 0x9010617D6F9091B5, 0x3994E2ECFD513DE2,
     0x4E0E2A33FE424514, 0x7342540B69B36D46, 0xA5D26B50BEE8E73A, 0x386A554526C06DC5,
     0x6B84778F8CA1428A, 0xBF1CA8FE22685E1C, 0x4758A8DE864BE0DB, 0xE15D5172D304DC0E,
     0xEA7AC60092BF76D1, 0x02CB3B05FA0DBE48, 0x28DBDB97364EFEB7, 0x7406DE0B60E99CC9,
     0x8A73C46590AA5A71, 0xBA0776A709AA9105, 0x76E1A36734D6B15E, 0xD45B93ABEEDF2A9D,
     0xCB66629CD75A12C2]"
  unfolding keccak_round_def
  apply (simp add: theta_def rotl64_def Let_def upt_0_5 upt_0_25)
  apply (simp add: rho_pi_def rotation_offsets_def rotl64_def Let_def upt_0_25)
  apply (simp add: chi_def Let_def upt_0_25)
  apply (simp add: iota_def)
  done

lemma transfer_round_4:
  "keccak_round
     [0xDF13DCA761F9AA43, 0xCE20963EDBAFEA64, 0x87030A9398532A03, 0x64BAFE9AC9FEB024,
     0xEECF342DCED33B8A, 0x697D11B0F72A683E, 0x9010617D6F9091B5, 0x3994E2ECFD513DE2,
     0x4E0E2A33FE424514, 0x7342540B69B36D46, 0xA5D26B50BEE8E73A, 0x386A554526C06DC5,
     0x6B84778F8CA1428A, 0xBF1CA8FE22685E1C, 0x4758A8DE864BE0DB, 0xE15D5172D304DC0E,
     0xEA7AC60092BF76D1, 0x02CB3B05FA0DBE48, 0x28DBDB97364EFEB7, 0x7406DE0B60E99CC9,
     0x8A73C46590AA5A71, 0xBA0776A709AA9105, 0x76E1A36734D6B15E, 0xD45B93ABEEDF2A9D,
     0xCB66629CD75A12C2]
     0x000000000000808B
   = [0xD4E099DA7C9BB904, 0xC962EA2F03D085AF, 0x0E7A477A98CACC26, 0xC9AF8C587A583003,
     0x841291680BAD90FA, 0x7D73AB8E8CCFD008, 0x602535C74148A62A, 0x731952C9FD99A435,
     0x600B7A975F4696F6, 0x5256CF7377F6F332, 0xEF9114F5CE37EF47, 0x706AA6898849AAD7,
     0x3370576CB3B89E8D, 0xA20DC07B7FA44EA1, 0x4546759407FE0E92, 0x3F212C1F763E0B3F,
     0x26620A9640666A83, 0xF1A2CC46B3CC9C0A, 0x06B854B5D9D07B69, 0xD8E41A5CEEA497C0,
     0xCAB1CC3442C9C3BB, 0x28910FF2FB7AB117, 0x137CDCE319430BDC, 0x4A4F31E00CC07ECD,
     0x239F098E0E0C1F1E]"
  unfolding keccak_round_def
  apply (simp add: theta_def rotl64_def Let_def upt_0_5 upt_0_25)
  apply (simp add: rho_pi_def rotation_offsets_def rotl64_def Let_def upt_0_25)
  apply (simp add: chi_def Let_def upt_0_25)
  apply (simp add: iota_def)
  done

lemma transfer_round_5:
  "keccak_round
     [0xD4E099DA7C9BB904, 0xC962EA2F03D085AF, 0x0E7A477A98CACC26, 0xC9AF8C587A583003,
     0x841291680BAD90FA, 0x7D73AB8E8CCFD008, 0x602535C74148A62A, 0x731952C9FD99A435,
     0x600B7A975F4696F6, 0x5256CF7377F6F332, 0xEF9114F5CE37EF47, 0x706AA6898849AAD7,
     0x3370576CB3B89E8D, 0xA20DC07B7FA44EA1, 0x4546759407FE0E92, 0x3F212C1F763E0B3F,
     0x26620A9640666A83, 0xF1A2CC46B3CC9C0A, 0x06B854B5D9D07B69, 0xD8E41A5CEEA497C0,
     0xCAB1CC3442C9C3BB, 0x28910FF2FB7AB117, 0x137CDCE319430BDC, 0x4A4F31E00CC07ECD,
     0x239F098E0E0C1F1E]
     0x0000000080000001
   = [0x133D4ADD8408BDC4, 0x8CA56C08F4719B37, 0x31F1DB510EB556F8, 0xCCB36D76212FE9EA,
     0x755CE5014AAF42C9, 0xD18259B1BB5952C9, 0x0437CFC07DCF26D7, 0x43A6E57517E71A69,
     0xCEDB808D5C1D1CE7, 0x412F46ACAA7D504F, 0x26DCA4AAE0AC32E7, 0x15664BD0E408CEF2,
     0x5463F7C3CBB475C5, 0xD995B9F5C7F7ADDA, 0xA9AEAA3E0E8B71D8, 0x669BA2E4F9BB481C,
     0x45492219A162ED9F, 0x0F25CDF975DA8DFD, 0x6B4961AE86B71448, 0x8C36700823020A57,
     0xB1F743BDA941B100, 0x1B8E1B6D6A029C8F, 0xB65EECB2BAD5D5EC, 0x47146CFED0DC905D,
     0x406DAE302692F9B9]"
  unfolding keccak_round_def
  apply (simp add: theta_def rotl64_def Let_def upt_0_5 upt_0_25)
  apply (simp add: rho_pi_def rotation_offsets_def rotl64_def Let_def upt_0_25)
  apply (simp add: chi_def Let_def upt_0_25)
  apply (simp add: iota_def)
  done

lemma transfer_round_6:
  "keccak_round
     [0x133D4ADD8408BDC4, 0x8CA56C08F4719B37, 0x31F1DB510EB556F8, 0xCCB36D76212FE9EA,
     0x755CE5014AAF42C9, 0xD18259B1BB5952C9, 0x0437CFC07DCF26D7, 0x43A6E57517E71A69,
     0xCEDB808D5C1D1CE7, 0x412F46ACAA7D504F, 0x26DCA4AAE0AC32E7, 0x15664BD0E408CEF2,
     0x5463F7C3CBB475C5, 0xD995B9F5C7F7ADDA, 0xA9AEAA3E0E8B71D8, 0x669BA2E4F9BB481C,
     0x45492219A162ED9F, 0x0F25CDF975DA8DFD, 0x6B4961AE86B71448, 0x8C36700823020A57,
     0xB1F743BDA941B100, 0x1B8E1B6D6A029C8F, 0xB65EECB2BAD5D5EC, 0x47146CFED0DC905D,
     0x406DAE302692F9B9]
     0x8000000080008081
   = [0x16AC2CEF224D28D0, 0xAC8328B07D8A1CD5, 0xEA6677C496A581B1, 0xCAE19309ADE2E865,
     0xFE96F51CCFA5A0F4, 0x5F9F589EDF4F202C, 0x4CC5CCC556AFC93B, 0x9BEF3E267E4D3FDE,
     0x6DCC030BB3BFD096, 0x530534AC78BBC4DE, 0x0A71C55F658B7EF1, 0x75E5C91A1B3C2B9A,
     0x4F230FDBEB8B2FBC, 0x88C7AADFA3971B98, 0x2E3C14908CF59952, 0x0DF066BC2FA720C9,
     0xD7C867E8ED2FCDB9, 0xF35B0F4070A09A33, 0x52942DBCA11801A0, 0xAA77576B450A6AE0,
     0xD3E29D3C1C6BB70F, 0xC9704C814ECB33AF, 0x55B05B95027FECBE, 0x3AB9DF62F1AD3CA8,
     0x78633268D85DEB68]"
  unfolding keccak_round_def
  apply (simp add: theta_def rotl64_def Let_def upt_0_5 upt_0_25)
  apply (simp add: rho_pi_def rotation_offsets_def rotl64_def Let_def upt_0_25)
  apply (simp add: chi_def Let_def upt_0_25)
  apply (simp add: iota_def)
  done

lemma transfer_round_7:
  "keccak_round
     [0x16AC2CEF224D28D0, 0xAC8328B07D8A1CD5, 0xEA6677C496A581B1, 0xCAE19309ADE2E865,
     0xFE96F51CCFA5A0F4, 0x5F9F589EDF4F202C, 0x4CC5CCC556AFC93B, 0x9BEF3E267E4D3FDE,
     0x6DCC030BB3BFD096, 0x530534AC78BBC4DE, 0x0A71C55F658B7EF1, 0x75E5C91A1B3C2B9A,
     0x4F230FDBEB8B2FBC, 0x88C7AADFA3971B98, 0x2E3C14908CF59952, 0x0DF066BC2FA720C9,
     0xD7C867E8ED2FCDB9, 0xF35B0F4070A09A33, 0x52942DBCA11801A0, 0xAA77576B450A6AE0,
     0xD3E29D3C1C6BB70F, 0xC9704C814ECB33AF, 0x55B05B95027FECBE, 0x3AB9DF62F1AD3CA8,
     0x78633268D85DEB68]
     0x8000000000008009
   = [0x91B9908D27CF10F8, 0x9C07E793393A11A2, 0x5994C235B0ECD414, 0xA2D3BB8241C560EF,
     0x3589D6FA15972049, 0x49D1A4639B556E1A, 0x8F3410B1D3B126A6, 0x6DC7DB3FAE041C23,
     0x5D4B890E7703B0BA, 0xDC08892289CD1A27, 0x23B6298E670B4656, 0xCEEA18396110CAE0,
     0x6D7EE60B4D2FA298, 0x12AABEF6BDB33295, 0x580274F6BC6AC91D, 0x0DAABBA4040E3D22,
     0xE0B5CD0052660382, 0xCC98B2600897B360, 0xCD029C91D7597FA7, 0xF614CFBC48ED2B27,
     0xFB3CBA705A49ED5D, 0x5632D5AC8256BDA3, 0x90A25461ADECB53B, 0xAB8DC8B59F94A95D,
     0x968BCAD49BDA63C7]"
  unfolding keccak_round_def
  apply (simp add: theta_def rotl64_def Let_def upt_0_5 upt_0_25)
  apply (simp add: rho_pi_def rotation_offsets_def rotl64_def Let_def upt_0_25)
  apply (simp add: chi_def Let_def upt_0_25)
  apply (simp add: iota_def)
  done

lemma transfer_round_8:
  "keccak_round
     [0x91B9908D27CF10F8, 0x9C07E793393A11A2, 0x5994C235B0ECD414, 0xA2D3BB8241C560EF,
     0x3589D6FA15972049, 0x49D1A4639B556E1A, 0x8F3410B1D3B126A6, 0x6DC7DB3FAE041C23,
     0x5D4B890E7703B0BA, 0xDC08892289CD1A27, 0x23B6298E670B4656, 0xCEEA18396110CAE0,
     0x6D7EE60B4D2FA298, 0x12AABEF6BDB33295, 0x580274F6BC6AC91D, 0x0DAABBA4040E3D22,
     0xE0B5CD0052660382, 0xCC98B2600897B360, 0xCD029C91D7597FA7, 0xF614CFBC48ED2B27,
     0xFB3CBA705A49ED5D, 0x5632D5AC8256BDA3, 0x90A25461ADECB53B, 0xAB8DC8B59F94A95D,
     0x968BCAD49BDA63C7]
     0x000000000000008A
   = [0x921951AFBF962865, 0xF2E8E5C121650A81, 0x2C294039BC1A8CCF, 0x3798FC488C8969BB,
     0xEB98DCF3E1FA82F9, 0xD5BC2783C21CCFC9, 0x871425459C90F756, 0x593F873418D382F9,
     0x86533968FC2FAB79, 0x7DD0FA615686E3C7, 0xB19B924EAB0A4A31, 0x708386DCC74964C5,
     0x331A7031887A7BE6, 0x2BAD098C5AE68A65, 0xA544757351D656B1, 0x6E76062D35CC2ABC,
     0x3A606A34E30604E5, 0x34D2B0AFCB682886, 0x9A557E0449485852, 0x1E0D829DFA8D73B3,
     0x026E29CF4D45DF43, 0x34FD14764186C055, 0x7EC7D0873EC8C2BB, 0xB62E771C46F8D568,
     0xF1C2FE47AB503215]"
  unfolding keccak_round_def
  apply (simp add: theta_def rotl64_def Let_def upt_0_5 upt_0_25)
  apply (simp add: rho_pi_def rotation_offsets_def rotl64_def Let_def upt_0_25)
  apply (simp add: chi_def Let_def upt_0_25)
  apply (simp add: iota_def)
  done

lemma transfer_round_9:
  "keccak_round
     [0x921951AFBF962865, 0xF2E8E5C121650A81, 0x2C294039BC1A8CCF, 0x3798FC488C8969BB,
     0xEB98DCF3E1FA82F9, 0xD5BC2783C21CCFC9, 0x871425459C90F756, 0x593F873418D382F9,
     0x86533968FC2FAB79, 0x7DD0FA615686E3C7, 0xB19B924EAB0A4A31, 0x708386DCC74964C5,
     0x331A7031887A7BE6, 0x2BAD098C5AE68A65, 0xA544757351D656B1, 0x6E76062D35CC2ABC,
     0x3A606A34E30604E5, 0x34D2B0AFCB682886, 0x9A557E0449485852, 0x1E0D829DFA8D73B3,
     0x026E29CF4D45DF43, 0x34FD14764186C055, 0x7EC7D0873EC8C2BB, 0xB62E771C46F8D568,
     0xF1C2FE47AB503215]
     0x0000000000000088
   = [0x4D7F1407B289F554, 0x299AE451758B2909, 0x3E6BDAAE9E481C7D, 0xBCFDDCA4558D5856,
     0x0B3C54FC95D554E7, 0xE31349A4582075B3, 0x854B6343E82C7D0E, 0x97E62275742C3AE3,
     0xBCFFB68EE9F3EAB7, 0x4F637A37947D2A8C, 0xA7A926814EBEBF72, 0xB98D19A28B979293,
     0x5DDF36DBB7856120, 0x7D2A28535D0231CE, 0xC301380AC9BA25A8, 0x3E4D12911F463370,
     0xD152025388B580D9, 0x0D8CC6C99CFDF3E8, 0xA12EEA5BFF01E9D5, 0x973399BE9F408D2A,
     0x8AFC2C5141E3D485, 0xE657E5106505ED0D, 0x4231B0A69E137A86, 0x87939BC86BE30664,
     0xBAA0057572A6B6DE]"
  unfolding keccak_round_def
  apply (simp add: theta_def rotl64_def Let_def upt_0_5 upt_0_25)
  apply (simp add: rho_pi_def rotation_offsets_def rotl64_def Let_def upt_0_25)
  apply (simp add: chi_def Let_def upt_0_25)
  apply (simp add: iota_def)
  done

lemma transfer_round_10:
  "keccak_round
     [0x4D7F1407B289F554, 0x299AE451758B2909, 0x3E6BDAAE9E481C7D, 0xBCFDDCA4558D5856,
     0x0B3C54FC95D554E7, 0xE31349A4582075B3, 0x854B6343E82C7D0E, 0x97E62275742C3AE3,
     0xBCFFB68EE9F3EAB7, 0x4F637A37947D2A8C, 0xA7A926814EBEBF72, 0xB98D19A28B979293,
     0x5DDF36DBB7856120, 0x7D2A28535D0231CE, 0xC301380AC9BA25A8, 0x3E4D12911F463370,
     0xD152025388B580D9, 0x0D8CC6C99CFDF3E8, 0xA12EEA5BFF01E9D5, 0x973399BE9F408D2A,
     0x8AFC2C5141E3D485, 0xE657E5106505ED0D, 0x4231B0A69E137A86, 0x87939BC86BE30664,
     0xBAA0057572A6B6DE]
     0x0000000080008009
   = [0x6B126FEB807C46DB, 0x1789EC66896FF088, 0xE3D8664673E7E18E, 0x441D3DB4CD156A48,
     0x7FDA2C835FA35EFF, 0xBA24166E1760990F, 0x318048746997506D, 0x0CFAAFE4F34C4E36,
     0xBCB5A351A2C5EF83, 0x5B691DD159C381FF, 0x96F368BCA1684199, 0xAB6F05983C436776,
     0x4041863EE3AE3F01, 0xCE20339FD9553C26, 0x77FE585A8CDBB44D, 0x880B3F79E84E4622,
     0xC9113440D64100AB, 0x8BBADA2BD86849CC, 0xECF7566080CA4719, 0xFE3DE737A5FE0490,
     0xCA128B5267BD0B04, 0x422A418D3A686369, 0x310CBBE1BC601084, 0x2E0FBEA205CBE11B,
     0xB7DA043D9EE02342]"
  unfolding keccak_round_def
  apply (simp add: theta_def rotl64_def Let_def upt_0_5 upt_0_25)
  apply (simp add: rho_pi_def rotation_offsets_def rotl64_def Let_def upt_0_25)
  apply (simp add: chi_def Let_def upt_0_25)
  apply (simp add: iota_def)
  done

lemma transfer_round_11:
  "keccak_round
     [0x6B126FEB807C46DB, 0x1789EC66896FF088, 0xE3D8664673E7E18E, 0x441D3DB4CD156A48,
     0x7FDA2C835FA35EFF, 0xBA24166E1760990F, 0x318048746997506D, 0x0CFAAFE4F34C4E36,
     0xBCB5A351A2C5EF83, 0x5B691DD159C381FF, 0x96F368BCA1684199, 0xAB6F05983C436776,
     0x4041863EE3AE3F01, 0xCE20339FD9553C26, 0x77FE585A8CDBB44D, 0x880B3F79E84E4622,
     0xC9113440D64100AB, 0x8BBADA2BD86849CC, 0xECF7566080CA4719, 0xFE3DE737A5FE0490,
     0xCA128B5267BD0B04, 0x422A418D3A686369, 0x310CBBE1BC601084, 0x2E0FBEA205CBE11B,
     0xB7DA043D9EE02342]
     0x000000008000000A
   = [0x79237167543C02ED, 0xB356C17F730D2FAC, 0xE5A45B6FE2CE1DA1, 0xBB7FD9C7EAB98E0F,
     0x42E43702CD9E7F04, 0x798762A87549F55A, 0x8CC598EFFCD78A1A, 0x54E071918B023C64,
     0x88055FCCDBBF4C25, 0x5FB6A899555D5B60, 0x7BFC2BA0BFAF6001, 0xF57CBECD1195C738,
     0x9A6870C9DB9F101D, 0xA46C89E534BDA901, 0x277AC8BD3CF77E36, 0xF1094F3B088C2908,
     0xFE0796FAC2734EAF, 0x73F0122BECDF7224, 0xE27F07C36D21238B, 0xDA0E1F843232CA95,
     0x0B59EE5C5397FC20, 0x32CE1FF4A573494E, 0x09747A86186BE666, 0x9E8D312C7C34BA71,
     0x1574F04EB7B08EDE]"
  unfolding keccak_round_def
  apply (simp add: theta_def rotl64_def Let_def upt_0_5 upt_0_25)
  apply (simp add: rho_pi_def rotation_offsets_def rotl64_def Let_def upt_0_25)
  apply (simp add: chi_def Let_def upt_0_25)
  apply (simp add: iota_def)
  done

lemma transfer_round_12:
  "keccak_round
     [0x79237167543C02ED, 0xB356C17F730D2FAC, 0xE5A45B6FE2CE1DA1, 0xBB7FD9C7EAB98E0F,
     0x42E43702CD9E7F04, 0x798762A87549F55A, 0x8CC598EFFCD78A1A, 0x54E071918B023C64,
     0x88055FCCDBBF4C25, 0x5FB6A899555D5B60, 0x7BFC2BA0BFAF6001, 0xF57CBECD1195C738,
     0x9A6870C9DB9F101D, 0xA46C89E534BDA901, 0x277AC8BD3CF77E36, 0xF1094F3B088C2908,
     0xFE0796FAC2734EAF, 0x73F0122BECDF7224, 0xE27F07C36D21238B, 0xDA0E1F843232CA95,
     0x0B59EE5C5397FC20, 0x32CE1FF4A573494E, 0x09747A86186BE666, 0x9E8D312C7C34BA71,
     0x1574F04EB7B08EDE]
     0x000000008000808B
   = [0xE4B99538263496B1, 0x08121FEA9246154D, 0x0254007C0960517C, 0x1005005FC55B6E42,
     0x66D580E66E059665, 0x59F179334433ABAC, 0x907C2792418B3571, 0x44013B0B743A8AA4,
     0xAC009AABED58D067, 0x7B1FCADA71C768C7, 0x2E7C76E766168D99, 0xF28FE09ACAAE1203,
     0x4E286E31F13C4399, 0xF914ECAF4ABD7D32, 0x69DD02EC23B6EB3E, 0x039C5461237288A4,
     0x602603D899D47E39, 0x490B45766933E57C, 0x05AD0E63F87451CF, 0xBC2789EA66F9D939,
     0x6496F8AE8C37E3CA, 0xC662961E6F793B4C, 0xEF84EC44D640D4D1, 0x44FB8EDC2654C5FC,
     0xC0528B23F6BD1BB0]"
  unfolding keccak_round_def
  apply (simp add: theta_def rotl64_def Let_def upt_0_5 upt_0_25)
  apply (simp add: rho_pi_def rotation_offsets_def rotl64_def Let_def upt_0_25)
  apply (simp add: chi_def Let_def upt_0_25)
  apply (simp add: iota_def)
  done

lemma transfer_round_13:
  "keccak_round
     [0xE4B99538263496B1, 0x08121FEA9246154D, 0x0254007C0960517C, 0x1005005FC55B6E42,
     0x66D580E66E059665, 0x59F179334433ABAC, 0x907C2792418B3571, 0x44013B0B743A8AA4,
     0xAC009AABED58D067, 0x7B1FCADA71C768C7, 0x2E7C76E766168D99, 0xF28FE09ACAAE1203,
     0x4E286E31F13C4399, 0xF914ECAF4ABD7D32, 0x69DD02EC23B6EB3E, 0x039C5461237288A4,
     0x602603D899D47E39, 0x490B45766933E57C, 0x05AD0E63F87451CF, 0xBC2789EA66F9D939,
     0x6496F8AE8C37E3CA, 0xC662961E6F793B4C, 0xEF84EC44D640D4D1, 0x44FB8EDC2654C5FC,
     0xC0528B23F6BD1BB0]
     0x800000000000008B
   = [0xC191992855FACC8A, 0xCBD60390BF94888F, 0x74B4DB7028B6EB2C, 0xF5032042803FD74D,
     0x4E2425B094D55BD4, 0x72C6F6286677B609, 0x03D9F70F934B3855, 0xFB91B538ADC1A1E7,
     0xF4436F37FB435C94, 0x606CC095A91E01FE, 0x9392A007F6F93EF4, 0x06F6B0B0B42561F0,
     0x73AB2496C98C53A1, 0x5C13498C5869E055, 0xAB9FA7D7692F17F8, 0x2C21D7A7E637319E,
     0xDBBD992C158D90A3, 0x588B44194728E12F, 0xF6CCEDF0BA2D1680, 0x6B22EDAE92C5A6E3,
     0xB19B4CA6E6E8839B, 0xEDEB135C7E43566A, 0xC200C590735EAAB8, 0xBC78C1050EEC40A3,
     0xFEE5700F9819D99D]"
  unfolding keccak_round_def
  apply (simp add: theta_def rotl64_def Let_def upt_0_5 upt_0_25)
  apply (simp add: rho_pi_def rotation_offsets_def rotl64_def Let_def upt_0_25)
  apply (simp add: chi_def Let_def upt_0_25)
  apply (simp add: iota_def)
  done

lemma transfer_round_14:
  "keccak_round
     [0xC191992855FACC8A, 0xCBD60390BF94888F, 0x74B4DB7028B6EB2C, 0xF5032042803FD74D,
     0x4E2425B094D55BD4, 0x72C6F6286677B609, 0x03D9F70F934B3855, 0xFB91B538ADC1A1E7,
     0xF4436F37FB435C94, 0x606CC095A91E01FE, 0x9392A007F6F93EF4, 0x06F6B0B0B42561F0,
     0x73AB2496C98C53A1, 0x5C13498C5869E055, 0xAB9FA7D7692F17F8, 0x2C21D7A7E637319E,
     0xDBBD992C158D90A3, 0x588B44194728E12F, 0xF6CCEDF0BA2D1680, 0x6B22EDAE92C5A6E3,
     0xB19B4CA6E6E8839B, 0xEDEB135C7E43566A, 0xC200C590735EAAB8, 0xBC78C1050EEC40A3,
     0xFEE5700F9819D99D]
     0x8000000000008089
   = [0xA19EFAC0E90ED1E8, 0xA6BACD2AF35A676C, 0xBD78C404D7F76044, 0x007380C4493C0C13,
     0xBAA2A40C9065CEE1, 0xA2E8280CFF3B7DF0, 0x214B39DC01705750, 0xB46715F8A1C1443B,
     0x8C25715D2172A13C, 0xABAF7A2BD5B8DAC4, 0xB675A252B64F9E7F, 0x3C4D599C5130D78D,
     0xFF3979CFD9B42C28, 0x7B2B2F9F427D1D09, 0x3523276E3AF103D0, 0x85C2F456B1594CAF,
     0x845D3BF13E9B5A6C, 0x09187226E0CBF1DC, 0xE72F6D9A47D8ABFD, 0x64C25E9DFC480137,
     0x2ED7182FBD0A81EE, 0x90C19115FF37CBB1, 0xE6455D2261D2EA38, 0xC6D9FB96492A36D8,
     0xE277645169DD499B]"
  unfolding keccak_round_def
  apply (simp add: theta_def rotl64_def Let_def upt_0_5 upt_0_25)
  apply (simp add: rho_pi_def rotation_offsets_def rotl64_def Let_def upt_0_25)
  apply (simp add: chi_def Let_def upt_0_25)
  apply (simp add: iota_def)
  done

lemma transfer_round_15:
  "keccak_round
     [0xA19EFAC0E90ED1E8, 0xA6BACD2AF35A676C, 0xBD78C404D7F76044, 0x007380C4493C0C13,
     0xBAA2A40C9065CEE1, 0xA2E8280CFF3B7DF0, 0x214B39DC01705750, 0xB46715F8A1C1443B,
     0x8C25715D2172A13C, 0xABAF7A2BD5B8DAC4, 0xB675A252B64F9E7F, 0x3C4D599C5130D78D,
     0xFF3979CFD9B42C28, 0x7B2B2F9F427D1D09, 0x3523276E3AF103D0, 0x85C2F456B1594CAF,
     0x845D3BF13E9B5A6C, 0x09187226E0CBF1DC, 0xE72F6D9A47D8ABFD, 0x64C25E9DFC480137,
     0x2ED7182FBD0A81EE, 0x90C19115FF37CBB1, 0xE6455D2261D2EA38, 0xC6D9FB96492A36D8,
     0xE277645169DD499B]
     0x8000000000008003
   = [0xDD472979939942FB, 0x4C2480DA2A301F6F, 0x41221EBB5F72AD84, 0xACD7B428DFFD0C25,
     0xE5D505D1CE911F32, 0xCA3C3E4D71829765, 0x3EEE13A3899A0090, 0x39F91E1CC481AFF0,
     0x13649717A1AC39F5, 0x484CF9F78168D85A, 0x57A59E06068FB40B, 0xB46CC82275CA24AD,
     0x55A32A1C1367CE6E, 0x600BEC82DED24EC6, 0xD29A4BDC70EB4817, 0xFE67A86D6E8112AC,
     0x4E3EC67AA1FEC8C8, 0x3B2CC680BC1F764A, 0x75BB4DFBBEDBA1B3, 0xD812D2FB2B8C8ACA,
     0xCE53DFA0FD32C32A, 0x167E24A880BDC79A, 0xD1E84FEFCA2B1561, 0x16ADCE75B5610F34,
     0xE0A82E68386D4342]"
  unfolding keccak_round_def
  apply (simp add: theta_def rotl64_def Let_def upt_0_5 upt_0_25)
  apply (simp add: rho_pi_def rotation_offsets_def rotl64_def Let_def upt_0_25)
  apply (simp add: chi_def Let_def upt_0_25)
  apply (simp add: iota_def)
  done

lemma transfer_round_16:
  "keccak_round
     [0xDD472979939942FB, 0x4C2480DA2A301F6F, 0x41221EBB5F72AD84, 0xACD7B428DFFD0C25,
     0xE5D505D1CE911F32, 0xCA3C3E4D71829765, 0x3EEE13A3899A0090, 0x39F91E1CC481AFF0,
     0x13649717A1AC39F5, 0x484CF9F78168D85A, 0x57A59E06068FB40B, 0xB46CC82275CA24AD,
     0x55A32A1C1367CE6E, 0x600BEC82DED24EC6, 0xD29A4BDC70EB4817, 0xFE67A86D6E8112AC,
     0x4E3EC67AA1FEC8C8, 0x3B2CC680BC1F764A, 0x75BB4DFBBEDBA1B3, 0xD812D2FB2B8C8ACA,
     0xCE53DFA0FD32C32A, 0x167E24A880BDC79A, 0xD1E84FEFCA2B1561, 0x16ADCE75B5610F34,
     0xE0A82E68386D4342]
     0x8000000000008002
   = [0x17337083517C698F, 0xCBCF1E37FF2F7A11, 0x5AC221D65867D4C1, 0x1FB133B16D87AEA6,
     0xAF255352773E7F46, 0x8B8A80EF8F451C9B, 0x83FE45F750F05366, 0x2C857A2621DEA7E1,
     0xA5D6A41A2DE50D61, 0x46EE0CC07DFF322C, 0x6F5E735942BC693F, 0xF1CFEABFBC6240F3,
     0x9EFBE0C937110BA9, 0x0965376EBAB25FA5, 0x0FE9729F8332C45F, 0x28DB7F909EEE61A4,
     0x3149953A4014E93B, 0x758DB2A6B029740B, 0x77B612A3F871BECB, 0xF87EE3D073122576,
     0xA3740FD38FF4843B, 0xB52DF0590F83524D, 0x497892B7F8B18839, 0x2078BD0D73A02758,
     0xB3BFA7F82B6FD6AF]"
  unfolding keccak_round_def
  apply (simp add: theta_def rotl64_def Let_def upt_0_5 upt_0_25)
  apply (simp add: rho_pi_def rotation_offsets_def rotl64_def Let_def upt_0_25)
  apply (simp add: chi_def Let_def upt_0_25)
  apply (simp add: iota_def)
  done

lemma transfer_round_17:
  "keccak_round
     [0x17337083517C698F, 0xCBCF1E37FF2F7A11, 0x5AC221D65867D4C1, 0x1FB133B16D87AEA6,
     0xAF255352773E7F46, 0x8B8A80EF8F451C9B, 0x83FE45F750F05366, 0x2C857A2621DEA7E1,
     0xA5D6A41A2DE50D61, 0x46EE0CC07DFF322C, 0x6F5E735942BC693F, 0xF1CFEABFBC6240F3,
     0x9EFBE0C937110BA9, 0x0965376EBAB25FA5, 0x0FE9729F8332C45F, 0x28DB7F909EEE61A4,
     0x3149953A4014E93B, 0x758DB2A6B029740B, 0x77B612A3F871BECB, 0xF87EE3D073122576,
     0xA3740FD38FF4843B, 0xB52DF0590F83524D, 0x497892B7F8B18839, 0x2078BD0D73A02758,
     0xB3BFA7F82B6FD6AF]
     0x8000000000000080
   = [0x416033DBB9F7B64E, 0xDA307D9A6C221E32, 0x4B01D313C950B499, 0x386B8A33DD9D112C,
     0xB985D4741005A0E8, 0xA48E3FDD592B772C, 0x575B70084B57233E, 0xD8C5D12CFBED93BD,
     0x6B3FA8C20B035DB5, 0x47CE0B0DAA873A37, 0x2C3AB27AFFA3556C, 0x00EC7927DD1D9736,
     0x020EB4F9CF41C4FF, 0x270A701BBD91EEC8, 0x3AFF91B86CC17E99, 0xB0FA438CDFDB0556,
     0xC5EC3A3551C91F6D, 0x523794023A924C94, 0x3C76070A27840147, 0x73ABCFC56ED2967E,
     0xAD9879CE7B9A7B34, 0x68C13406BDF477B4, 0x12A9E70FFACF0CE5, 0x435D73FD1B7C6AAA,
     0x97DDD1CEBDB28EB3]"
  unfolding keccak_round_def
  apply (simp add: theta_def rotl64_def Let_def upt_0_5 upt_0_25)
  apply (simp add: rho_pi_def rotation_offsets_def rotl64_def Let_def upt_0_25)
  apply (simp add: chi_def Let_def upt_0_25)
  apply (simp add: iota_def)
  done

lemma transfer_round_18:
  "keccak_round
     [0x416033DBB9F7B64E, 0xDA307D9A6C221E32, 0x4B01D313C950B499, 0x386B8A33DD9D112C,
     0xB985D4741005A0E8, 0xA48E3FDD592B772C, 0x575B70084B57233E, 0xD8C5D12CFBED93BD,
     0x6B3FA8C20B035DB5, 0x47CE0B0DAA873A37, 0x2C3AB27AFFA3556C, 0x00EC7927DD1D9736,
     0x020EB4F9CF41C4FF, 0x270A701BBD91EEC8, 0x3AFF91B86CC17E99, 0xB0FA438CDFDB0556,
     0xC5EC3A3551C91F6D, 0x523794023A924C94, 0x3C76070A27840147, 0x73ABCFC56ED2967E,
     0xAD9879CE7B9A7B34, 0x68C13406BDF477B4, 0x12A9E70FFACF0CE5, 0x435D73FD1B7C6AAA,
     0x97DDD1CEBDB28EB3]
     0x000000000000800A
   = [0x74FD97BFA07F6C0C, 0x8AE07E5D4C9F9CFA, 0xC9E282A674922286, 0x6AB61C5AEF7FD6CE,
     0xF7EBC70E63758DC1, 0xE787B99D8ADA9EEE, 0xC4D2B2CA338CCF56, 0x2DF595E6B9156883,
     0x9C6812F76432A676, 0xD4C53A741D4AEAAF, 0x505AEF0D30B05217, 0x9398E4178570826A,
     0xC914A768E80B9402, 0xBBBF016A08935DD5, 0xD10048588CA7B993, 0x6446658DE8BCF398,
     0x1A35A79C5F8E2397, 0xCB5AB07620C035DB, 0x7053317C4657D7FB, 0x1CE30F07B32D9A17,
     0xBE507163ED7B3564, 0x86B5F644C69E634B, 0xFCB1365555FC8636, 0x22F826E0D1D404AC,
     0x7BD5683DF4A328B7]"
  unfolding keccak_round_def
  apply (simp add: theta_def rotl64_def Let_def upt_0_5 upt_0_25)
  apply (simp add: rho_pi_def rotation_offsets_def rotl64_def Let_def upt_0_25)
  apply (simp add: chi_def Let_def upt_0_25)
  apply (simp add: iota_def)
  done

lemma transfer_round_19:
  "keccak_round
     [0x74FD97BFA07F6C0C, 0x8AE07E5D4C9F9CFA, 0xC9E282A674922286, 0x6AB61C5AEF7FD6CE,
     0xF7EBC70E63758DC1, 0xE787B99D8ADA9EEE, 0xC4D2B2CA338CCF56, 0x2DF595E6B9156883,
     0x9C6812F76432A676, 0xD4C53A741D4AEAAF, 0x505AEF0D30B05217, 0x9398E4178570826A,
     0xC914A768E80B9402, 0xBBBF016A08935DD5, 0xD10048588CA7B993, 0x6446658DE8BCF398,
     0x1A35A79C5F8E2397, 0xCB5AB07620C035DB, 0x7053317C4657D7FB, 0x1CE30F07B32D9A17,
     0xBE507163ED7B3564, 0x86B5F644C69E634B, 0xFCB1365555FC8636, 0x22F826E0D1D404AC,
     0x7BD5683DF4A328B7]
     0x800000008000000A
   = [0xFB72F62B44CA0763, 0x872C26C340B9D893, 0x89FB432FD5D3F196, 0x29CF196D04403335,
     0x32F13F5686960D0E, 0x2D7A223BE7A69934, 0x199A69EDE9BE8A2D, 0x38B6D40F1A0E62BA,
     0x9ED756D2F7E91CA3, 0x82C0A6F36B9F9B63, 0x6C0D92D4EC4CC66D, 0x966FC23463E94945,
     0xA3663FF021004D66, 0x4CBD5B8CD4E07D3F, 0xD5DC7A01FF379D61, 0xD306657F4E942F06,
     0x96353D7F28B9935D, 0x786500DFDA5FDEFC, 0x7E8871CF284AF9F4, 0xFDAB29B4DAC2D8E8,
     0x01D6B7EC1E861328, 0x83EC7AC062AD5C2D, 0x8F41C1F7B3CCF09B, 0x9FE9E2741BCECA96,
     0x3B4D764D809A3E5B]"
  unfolding keccak_round_def
  apply (simp add: theta_def rotl64_def Let_def upt_0_5 upt_0_25)
  apply (simp add: rho_pi_def rotation_offsets_def rotl64_def Let_def upt_0_25)
  apply (simp add: chi_def Let_def upt_0_25)
  apply (simp add: iota_def)
  done

lemma transfer_round_20:
  "keccak_round
     [0xFB72F62B44CA0763, 0x872C26C340B9D893, 0x89FB432FD5D3F196, 0x29CF196D04403335,
     0x32F13F5686960D0E, 0x2D7A223BE7A69934, 0x199A69EDE9BE8A2D, 0x38B6D40F1A0E62BA,
     0x9ED756D2F7E91CA3, 0x82C0A6F36B9F9B63, 0x6C0D92D4EC4CC66D, 0x966FC23463E94945,
     0xA3663FF021004D66, 0x4CBD5B8CD4E07D3F, 0xD5DC7A01FF379D61, 0xD306657F4E942F06,
     0x96353D7F28B9935D, 0x786500DFDA5FDEFC, 0x7E8871CF284AF9F4, 0xFDAB29B4DAC2D8E8,
     0x01D6B7EC1E861328, 0x83EC7AC062AD5C2D, 0x8F41C1F7B3CCF09B, 0x9FE9E2741BCECA96,
     0x3B4D764D809A3E5B]
     0x8000000080008081
   = [0xE0690B77E04BC309, 0x01C20A9512ED2D8D, 0xA48BDEDBDEF62043, 0x5187EC0B5CCAF1CE,
     0xA6DCCA0CF74A8009, 0xD115FD927E557485, 0xDF9613E9E907BBF0, 0xBC24DE152EF88EF7,
     0xE3E67799F7F34720, 0xD8B902E943551680, 0xDBCC42CAA26EBBA9, 0x4FC47EFCFBBD68E6,
     0xA6EF8AA9CFD92AD5, 0xC480107ACB5993BE, 0x7FE9707107972336, 0x9563FD2777F8FC83,
     0x83FCE9CDA3C032FE, 0x161E89A909386D53, 0x63F4359BAD301874, 0xA620F12B360C4FB9,
     0xEF5CA1AA8EA67B42, 0xF85BF933C860751F, 0x4F12E0069DE9B26A, 0x66975EB20BBC4A2C,
     0x941EB3988C5B6591]"
  unfolding keccak_round_def
  apply (simp add: theta_def rotl64_def Let_def upt_0_5 upt_0_25)
  apply (simp add: rho_pi_def rotation_offsets_def rotl64_def Let_def upt_0_25)
  apply (simp add: chi_def Let_def upt_0_25)
  apply (simp add: iota_def)
  done

lemma transfer_round_21:
  "keccak_round
     [0xE0690B77E04BC309, 0x01C20A9512ED2D8D, 0xA48BDEDBDEF62043, 0x5187EC0B5CCAF1CE,
     0xA6DCCA0CF74A8009, 0xD115FD927E557485, 0xDF9613E9E907BBF0, 0xBC24DE152EF88EF7,
     0xE3E67799F7F34720, 0xD8B902E943551680, 0xDBCC42CAA26EBBA9, 0x4FC47EFCFBBD68E6,
     0xA6EF8AA9CFD92AD5, 0xC480107ACB5993BE, 0x7FE9707107972336, 0x9563FD2777F8FC83,
     0x83FCE9CDA3C032FE, 0x161E89A909386D53, 0x63F4359BAD301874, 0xA620F12B360C4FB9,
     0xEF5CA1AA8EA67B42, 0xF85BF933C860751F, 0x4F12E0069DE9B26A, 0x66975EB20BBC4A2C,
     0x941EB3988C5B6591]
     0x8000000000008080
   = [0x2430BAEAD659AEA6, 0x1868583903D1FD02, 0x13E8FD4EE8E2A14F, 0x4492BEABBE7775EF,
     0xB8CD702A80D0B020, 0x1E4539D30FF8FBA0, 0x37A5B5737C15E247, 0xE882B0C9C5D2AEF9,
     0x97F64ABDD8DDE504, 0x28D4CCDB0F78DCE3, 0x07CD8A80839731B3, 0x409A142218D04F9C,
     0xB8E281EFD009500D, 0x97E8A67FBE317944, 0x95D772686CE0644E, 0x0CD9FE8656E24799,
     0x10F1DC7AEC96950A, 0x0903B5E25DF5CC6F, 0x1AB3368DDE1C8746, 0x58E6BE381CAF952C,
     0x7A6E420F3E36076E, 0xAB33E7D14A74A443, 0x9A35E396BA28FA8D, 0xF26BC0EDFDE5A593,
     0x1826FDB16C88813B]"
  unfolding keccak_round_def
  apply (simp add: theta_def rotl64_def Let_def upt_0_5 upt_0_25)
  apply (simp add: rho_pi_def rotation_offsets_def rotl64_def Let_def upt_0_25)
  apply (simp add: chi_def Let_def upt_0_25)
  apply (simp add: iota_def)
  done

lemma transfer_round_22:
  "keccak_round
     [0x2430BAEAD659AEA6, 0x1868583903D1FD02, 0x13E8FD4EE8E2A14F, 0x4492BEABBE7775EF,
     0xB8CD702A80D0B020, 0x1E4539D30FF8FBA0, 0x37A5B5737C15E247, 0xE882B0C9C5D2AEF9,
     0x97F64ABDD8DDE504, 0x28D4CCDB0F78DCE3, 0x07CD8A80839731B3, 0x409A142218D04F9C,
     0xB8E281EFD009500D, 0x97E8A67FBE317944, 0x95D772686CE0644E, 0x0CD9FE8656E24799,
     0x10F1DC7AEC96950A, 0x0903B5E25DF5CC6F, 0x1AB3368DDE1C8746, 0x58E6BE381CAF952C,
     0x7A6E420F3E36076E, 0xAB33E7D14A74A443, 0x9A35E396BA28FA8D, 0xF26BC0EDFDE5A593,
     0x1826FDB16C88813B]
     0x0000000080000001
   = [0xCC25B25FC6C23914, 0xF34F69857667B7B5, 0xDDD979A7F0C8B7B0, 0x561DC6AEA3223312,
     0x7DBC710BB1B4CE39, 0x3C60D24029C543EE, 0xAB1272A592D924C0, 0x5DC4109408A650CF,
     0xE45BAD004BEE4F37, 0x01C8208D01B349AD, 0x6435A2604A7E87A3, 0x07FEC7FCB052273B,
     0x8704BC0731DA9F41, 0x696551A201B6D4A0, 0x21EABECBD3563935, 0x18B719DE3CF09758,
     0xEA3B54BF33035455, 0xC274607F2AA52BCB, 0x9FCA04FD3991629D, 0x19A88861D2C2DFF4,
     0xA4E44DF539F855AB, 0x74E6AF6571D251DE, 0x27764273CA4F48B8, 0x61C041437B68378E,
     0x15073965757B6899]"
  unfolding keccak_round_def
  apply (simp add: theta_def rotl64_def Let_def upt_0_5 upt_0_25)
  apply (simp add: rho_pi_def rotation_offsets_def rotl64_def Let_def upt_0_25)
  apply (simp add: chi_def Let_def upt_0_25)
  apply (simp add: iota_def)
  done

lemma transfer_round_23:
  "keccak_round
     [0xCC25B25FC6C23914, 0xF34F69857667B7B5, 0xDDD979A7F0C8B7B0, 0x561DC6AEA3223312,
     0x7DBC710BB1B4CE39, 0x3C60D24029C543EE, 0xAB1272A592D924C0, 0x5DC4109408A650CF,
     0xE45BAD004BEE4F37, 0x01C8208D01B349AD, 0x6435A2604A7E87A3, 0x07FEC7FCB052273B,
     0x8704BC0731DA9F41, 0x696551A201B6D4A0, 0x21EABECBD3563935, 0x18B719DE3CF09758,
     0xEA3B54BF33035455, 0xC274607F2AA52BCB, 0x9FCA04FD3991629D, 0x19A88861D2C2DFF4,
     0xA4E44DF539F855AB, 0x74E6AF6571D251DE, 0x27764273CA4F48B8, 0x61C041437B68378E,
     0x15073965757B6899]
     0x8000000080008008
   = [0x9BC8E21BAD52F2DD, 0xAA8D37FC68B0C269, 0x16A1C463F1A72B95, 0xEFB323F54D5AF528,
     0x1A88B3E6FA3EDC1A, 0xD6BBD3BD706E6DD0, 0x7946ADEC56675A7F, 0x8BC6C22F0703EF67,
     0x8B9C0079859330A9, 0x1CCF7F4297FFA26D, 0x3FF6636B81054D08, 0x7EAB37D3660B8FFD,
     0x2342743CB6F2F0B5, 0xCEEF587AA3191764, 0xF6C3593C99B35C10, 0x284BCB67DC669AB3,
     0x41628E5B7ADD245C, 0xA9DEE90A34F2E9BC, 0xDCD837AAA09535AC, 0x4E01A992CA43C673,
     0x5F3082F92E7EF74A, 0x35701567E1F4A783, 0x3BDCBBAA4A1AA80A, 0xD3CE1FE7D413ABE8,
     0xC3894C045DFC639F]"
  unfolding keccak_round_def
  apply (simp add: theta_def rotl64_def Let_def upt_0_5 upt_0_25)
  apply (simp add: rho_pi_def rotation_offsets_def rotl64_def Let_def upt_0_25)
  apply (simp add: chi_def Let_def upt_0_25)
  apply (simp add: iota_def)
  done

lemma transfer_permuted:
  "keccak_f
     [0x726566736E617254, 0x7373657264646128, 0x737365726464612C, 0x363532746E69752C,
     0x0000000000000129, 0x0000000000000000, 0x0000000000000000, 0x0000000000000000,
     0x0000000000000000, 0x0000000000000000, 0x0000000000000000, 0x0000000000000000,
     0x0000000000000000, 0x0000000000000000, 0x0000000000000000, 0x0000000000000000,
     0x8000000000000000, 0x0000000000000000, 0x0000000000000000, 0x0000000000000000,
     0x0000000000000000, 0x0000000000000000, 0x0000000000000000, 0x0000000000000000,
     0x0000000000000000]
   = [0x9BC8E21BAD52F2DD, 0xAA8D37FC68B0C269, 0x16A1C463F1A72B95, 0xEFB323F54D5AF528,
     0x1A88B3E6FA3EDC1A, 0xD6BBD3BD706E6DD0, 0x7946ADEC56675A7F, 0x8BC6C22F0703EF67,
     0x8B9C0079859330A9, 0x1CCF7F4297FFA26D, 0x3FF6636B81054D08, 0x7EAB37D3660B8FFD,
     0x2342743CB6F2F0B5, 0xCEEF587AA3191764, 0xF6C3593C99B35C10, 0x284BCB67DC669AB3,
     0x41628E5B7ADD245C, 0xA9DEE90A34F2E9BC, 0xDCD837AAA09535AC, 0x4E01A992CA43C673,
     0x5F3082F92E7EF74A, 0x35701567E1F4A783, 0x3BDCBBAA4A1AA80A, 0xD3CE1FE7D413ABE8,
     0xC3894C045DFC639F]"
  unfolding keccak_f_def round_constants_def
  by (simp only: foldl.simps transfer_round_0 transfer_round_1 transfer_round_2 transfer_round_3 transfer_round_4 transfer_round_5 transfer_round_6 transfer_round_7 transfer_round_8 transfer_round_9 transfer_round_10 transfer_round_11 transfer_round_12 transfer_round_13 transfer_round_14 transfer_round_15 transfer_round_16 transfer_round_17 transfer_round_18 transfer_round_19 transfer_round_20 transfer_round_21 transfer_round_22 transfer_round_23)

lemma transfer_digest:
  "keccak (utf8 ''Transfer(address,address,uint256)'')
     = [0xDD, 0xF2, 0x52, 0xAD, 0x1B, 0xE2, 0xC8, 0x9B, 0x69, 0xC2, 0xB0, 0x68, 0xFC, 0x37, 0x8D, 0xAA,
     0x95, 0x2B, 0xA7, 0xF1, 0x63, 0xC4, 0xA1, 0x16, 0x28, 0xF5, 0x5A, 0x4D, 0xF5, 0x23, 0xB3, 0xEF]"
  unfolding transfer_utf8 keccak_def transfer_pad
  by (simp add: Let_def absorb_block_def transfer_absorbed transfer_permuted
      bytes_of_lane_def upt_0_8)

lemma transfer_topic:
  "''0x'' @ hex (keccak (utf8 ''Transfer(address,address,uint256)''))
     = ''0xddf252ad1be2c89b69c2b068fc378daa952ba7f163c4a11628f55a4df523b3ef''"
  unfolding transfer_digest by (simp add: hex_def hex_byte_def hexdigit_def)

lemma collect_types_ok:
  "list_all2 (\<lambda>i ty. \<exists>di. i = JObj di \<and> map_of di ''type'' = Some (JStr ty)) ins tys
     \<Longrightarrow> collect_types ins = Inr (map JStr tys)"
  by (induction rule: list_all2_induct) auto

lemma str_items_JStr: "str_items (map JStr tys) = Inr tys"
  by (induction tys) simp_all

lemma collect_types_fail:
  "i \<in> set ins \<Longrightarrow> subscript_type i = Inl e \<Longrightarrow> \<exists>e'. collect_types ins = Inl e'"
  by (induction ins) (auto split: sum.splits)

lemma event_entry_event:
  assumes "map_of d ''type'' = Some (JStr ''event'')"
    and "truthy (dict_get d ''name'' JNull)"
    and "dict_get d ''inputs'' (JArr []) = JArr ins"
  shows "event_entry str (JObj d)
           = (case collect_types ins of
                Inl e \<Rightarrow> Inl e
              | Inr ts \<Rightarrow>
                  (case str_items ts of
                     Inl e \<Rightarrow> Inl e
                   | Inr arg_types \<Rightarrow>
                       Inr (Some \<lparr>name = dict_get d ''name'' JNull,
                                  inputs = ins,
                                  signature = format_name str (dict_get d ''name'' JNull) @ ''(''
                                              @ join '','' arg_types @ '')''\<rparr>)))"
proof -
  have "dict_get d ''type'' JNull = JStr ''event''"
    using assms(1) by (simp add: dict_get_def)
  with assms(2,3) show ?thesis by (simp add: event_entry_def Let_def)
qed

lemma event_entry_skip:
  assumes "dict_get d ''type'' JNull \<noteq> JStr ''event''
           \<or> \<not> truthy (dict_get d ''name'' JNull)
           \<or> (\<exists>v. map_of d ''inputs'' = Some v \<and> (\<forall>xs. v \<noteq> JArr xs))"
  shows "event_entry str (JObj d) = Inr None"
proof (cases "dict_get d ''type'' JNull = JStr ''event''")
  case False
  then show ?thesis by (simp add: event_entry_def)
next
  case True
  show ?thesis
  proof (cases "dict_get d ''inputs'' (JArr [])")
    case (JArr xs)
    with assms True have "\<not> truthy (dict_get d ''name'' JNull)"
      by (auto simp: dict_get_def split: option.splits)
    with True JArr show ?thesis by (simp add: event_entry_def Let_def)
  qed (use True in \<open>simp_all add: event_entry_def Let_def\<close>)
qed

lemma build_loop_fail:
  "item \<in> set abi \<Longrightarrow> event_entry str item = Inl e \<Longrightarrow> \<exists>e'. build_loop str abi tm = Inl e'"
  by (induction abi arbitrary: tm) (auto split: sum.splits option.splits)

lemma build_loop_all_skipped:
  "\<forall>item \<in> set abi. event_entry str item = Inr None \<Longrightarrow> build_loop str abi tm = Inr tm"
  by (induction abi arbitrary: tm) simp_all

text \<open>
  C5. For an event definition whose inputs all carry a type string, the signature is the
  name, \<open>(\<close>, the type strings joined by commas without spaces, and \<open>)\<close>; the entry is stored
  under \<open>0x\<close> followed by the lowercase hexadecimal digits of the Keccak-256 digest of the
  UTF-8 bytes of the signature, a key of exactly 66 characters. The \<open>Transfer\<close> event of
  ERC-20 gives the signature \<open>Transfer(address,address,uint256)\<close>.
\<close>

theorem signature_derivation:
  assumes "map_of d ''type'' = Some (JStr ''event'')"
    and "map_of d ''name'' = Some (JStr nm)" and "nm \<noteq> []"
    and "map_of d ''inputs'' = Some (JArr ins)"
    and "list_all2 (\<lambda>i ty. \<exists>di. i = JObj di \<and> map_of di ''type'' = Some (JStr ty)) ins tys"
  defines "sg \<equiv> nm @ ''('' @ join '','' tys @ '')''"
  shows "build_event_signature_map str [JObj d]
           = Inr [(''0x'' @ hex (keccak (utf8 sg)),
                   \<lparr>name = JStr nm, inputs = ins, signature = sg\<rparr>)]
         \<and> build_loop str (JObj d # rest) tm
           = build_loop str rest
               (AList.update (''0x'' @ hex (keccak (utf8 sg)))
                  \<lparr>name = JStr nm, inputs = ins, signature = sg\<rparr> tm)
         \<and> length (''0x'' @ hex (keccak (utf8 sg))) = 66
         \<and> set (hex (keccak (utf8 sg))) \<subseteq> set ''0123456789abcdef''
         \<and> join '','' [''address'', ''address'', ''uint256''] = ''address,address,uint256''"
proof -
  have "truthy (dict_get d ''name'' JNull)"
    and "dict_get d ''inputs'' (JArr []) = JArr ins"
    and "dict_get d ''name'' JNull = JStr nm"
    and "format_name str (JStr nm) = nm"
    using assms(2,3,4) by (simp_all add: dict_get_def format_name_def)
  with event_entry_event[OF assms(1), of ins str]
  have e: "event_entry str (JObj d)
             = Inr (Some \<lparr>name = JStr nm, inputs = ins, signature = sg\<rparr>)"
    by (simp add: collect_types_ok[OF assms(5)] str_items_JStr sg_def)
  have 1: "build_event_signature_map str [JObj d]
           = Inr [(''0x'' @ hex (keccak (utf8 sg)),
                   \<lparr>name = JStr nm, inputs = ins, signature = sg\<rparr>)]"
    by (simp add: build_event_signature_map_def e topic_of_def)
  have 2: "build_loop str (JObj d # rest) tm
           = build_loop str rest
               (AList.update (''0x'' @ hex (keccak (utf8 sg)))
                  \<lparr>name = JStr nm, inputs = ins, signature = sg\<rparr> tm)"
    by (simp add: e topic_of_def)
  have 3: "length (''0x'' @ hex (keccak (utf8 sg))) = 66"
    using length_topic_of[of sg] by (simp only: topic_of_def)
  have 4: "set (hex (keccak (utf8 sg))) \<subseteq> set ''0123456789abcdef''"
    by (rule set_hex)
  have 5: "join '','' [''address'', ''address'', ''uint256''] = ''address,address,uint256''"
    by simp
  from 1 2 3 4 5 show ?thesis by blast
qed

theorem signature_derivation_witness:
  "build_event_signature_map str_unused [transfer_event]
     = Inr [(''0xddf252ad1be2c89b69c2b068fc378daa952ba7f163c4a11628f55a4df523b3ef'',
             \<lparr>name = JStr ''Transfer'',
              inputs = [JObj [(''indexed'', JBool True), (''name'', JStr ''from''),
                              (''type'', JStr ''address'')],
                        JObj [(''indexed'', JBool True), (''name'', JStr ''to''),
                              (''type'', JStr ''address'')],
                        JObj [(''indexed'', JBool False), (''name'', JStr ''value''),
                              (''type'', JStr ''uint256'')]],
              signature = ''Transfer(address,address,uint256)''\<rparr>)]
   \<and> length ''0xddf252ad1be2c89b69c2b068fc378daa952ba7f163c4a11628f55a4df523b3ef'' = 66"
proof -
  let ?ins = "[JObj [(''indexed'', JBool True), (''name'', JStr ''from''),
                     (''type'', JStr ''address'')],
               JObj [(''indexed'', JBool True), (''name'', JStr ''to''),
                     (''type'', JStr ''address'')],
               JObj [(''indexed'', JBool False), (''name'', JStr ''value''),
                     (''type'', JStr ''uint256'')]]"
  let ?d = "[(''anonymous'', JBool False), (''inputs'', JArr ?ins),
             (''name'', JStr ''Transfer''), (''type'', JStr ''event'')]"
  have a: "map_of ?d ''type'' = Some (JStr ''event'')"
    and b: "map_of ?d ''name'' = Some (JStr ''Transfer'')"
    and c: "''Transfer'' \<noteq> []"
    and d: "map_of ?d ''inputs'' = Some (JArr ?ins)"
    and e: "list_all2 (\<lambda>i ty. \<exists>di. i = JObj di \<and> map_of di ''type'' = Some (JStr ty))
              ?ins [''address'', ''address'', ''uint256'']"
    by simp_all
  from signature_derivation[OF a b c d e, of str_unused]
  show ?thesis
    by (simp add: transfer_event_def transfer_digest hex_def hex_byte_def hexdigit_def)
qed

lemma collect_types_dicts:
  "\<forall>i \<in> set ins. \<exists>dj. i = JObj dj \<Longrightarrow> collect_types ins = Inl e \<Longrightarrow> e = KeyError ''type''"
  by (induction ins) (auto split: sum.splits option.splits)

lemma example_connect:
  "main_connect (example_world doc answers) (example_args st)
     = Inr \<lparr>c_printed = [Banner, RpcLine ''http://localhost:8545'', ChainIdLine 1,
                         AddressLine ''0x0000000000000000000000000000000000000001'',
                         BlocksLine 10 25 st],
            c_chain_id = Some 1, c_from_block = 10, c_to_block = 25,
            c_address = ''0x0000000000000000000000000000000000000001''\<rparr>"
  by (simp add: main_connect_def example_world_def example_args_def)

lemma example_load_abi:
  "load_abi (example_world (JArr abi) answers) (arg_abi (example_args st)) = Inr abi"
  by (simp add: load_abi_def example_world_def)

lemma example_load_required:
  "load_required W (arg_expected_events (example_args st)) = Inr None"
  by (simp add: load_required_def example_args_def)

lemma example_py_str: "py_str (example_world doc answers) = str_unused"
  by (simp add: example_world_def)

text \<open>
  C6, as the code has it. A definition that is not of event kind, or whose name is missing or
  empty, or whose \<open>inputs\<close> field is there but is not a list, adds no entry to the signature
  map and raises no error. When no definition qualifies the map is empty, and the run goes
  on to the fetch after a warning. A definition of event kind with a name and without an
  \<open>inputs\<close> field is not skipped: its inputs are the empty list and it adds the entry of the
  signature \<open>name()\<close>.
\<close>

theorem skipped_definitions:
  "((dict_get d ''type'' JNull \<noteq> JStr ''event''
      \<or> \<not> truthy (dict_get d ''name'' JNull)
      \<or> (\<exists>v. map_of d ''inputs'' = Some v \<and> (\<forall>xs. v \<noteq> JArr xs)))
     \<longrightarrow> event_entry str (JObj d) = Inr None
         \<and> build_loop str (JObj d # rest) tm = build_loop str rest tm)
   \<and> ((\<forall>item \<in> set abi. event_entry str item = Inr None)
     \<longrightarrow> build_event_signature_map str abi = Inr []
         \<and> (\<forall>W a k req.
               py_str W = str \<and> main_connect W a = Inr k \<and> load_abi W (arg_abi a) = Inr abi
               \<and> load_required W (arg_expected_events a) = Inr req
               \<longrightarrow> main_setup W a
                     = Inr \<lparr>c_printed = c_printed k @ [NoEventsInAbi],
                            c_chain_id = c_chain_id k, c_from_block = c_from_block k,
                            c_to_block = c_to_block k, c_address = c_address k,
                            c_topic_map = [], c_required = req\<rparr>))
   \<and> (map_of d ''type'' = Some (JStr ''event'') \<and> map_of d ''name'' = Some (JStr nm) \<and> nm \<noteq> []
      \<and> map_of d ''inputs'' = None
     \<longrightarrow> event_entry str (JObj d)
           = Inr (Some \<lparr>name = JStr nm, inputs = [], signature = nm @ ''()''\<rparr>))"
proof (intro conjI impI)
  assume "dict_get d ''type'' JNull \<noteq> JStr ''event''
      \<or> \<not> truthy (dict_get d ''name'' JNull)
      \<or> (\<exists>v. map_of d ''inputs'' = Some v \<and> (\<forall>xs. v \<noteq> JArr xs))"
  then show e: "event_entry str (JObj d) = Inr None" by (rule event_entry_skip)
  then show "build_loop str (JObj d # rest) tm = build_loop str rest tm" by simp
next
  assume skip: "\<forall>item \<in> set abi. event_entry str item = Inr None"
  then show b: "build_event_signature_map str abi = Inr []"
    by (simp add: build_event_signature_map_def build_loop_all_skipped)
  show "\<forall>W a k req.
          py_str W = str \<and> main_connect W a = Inr k \<and> load_abi W (arg_abi a) = Inr abi
          \<and> load_required W (arg_expected_events a) = Inr req
          \<longrightarrow> main_setup W a
                = Inr \<lparr>c_printed = c_printed k @ [NoEventsInAbi],
                       c_chain_id = c_chain_id k, c_from_block = c_from_block k,
                       c_to_block = c_to_block k, c_address = c_address k,
                       c_topic_map = [], c_required = req\<rparr>"
    using b by (simp add: main_setup_def)
next
  assume a: "map_of d ''type'' = Some (JStr ''event'') \<and> map_of d ''name'' = Some (JStr nm)
             \<and> nm \<noteq> [] \<and> map_of d ''inputs'' = None"
  then have "truthy (dict_get d ''name'' JNull)"
    and "dict_get d ''inputs'' (JArr []) = JArr []"
    and "dict_get d ''name'' JNull = JStr nm"
    and "format_name str (JStr nm) = nm"
    by (simp_all add: dict_get_def format_name_def)
  with event_entry_event[of d "[]" str] a
  show "event_entry str (JObj d)
          = Inr (Some \<lparr>name = JStr nm, inputs = [], signature = nm @ ''()''\<rparr>)"
    by simp
qed

theorem skipped_definitions_witness:
  "event_entry str_unused (JObj [(''type'', JStr ''function''), (''name'', JStr ''transfer'')])
     = Inr None
   \<and> event_entry str_unused (JObj [(''type'', JStr ''event''), (''name'', JStr '''')]) = Inr None
   \<and> event_entry str_unused
       (JObj [(''type'', JStr ''event''), (''name'', JStr ''Ping''), (''inputs'', JNull)])
     = Inr None
   \<and> main_setup
       (example_world (JArr [JObj [(''type'', JStr ''function''), (''name'', JStr ''transfer'')]]) [])
       (example_args 10)
     = Inr \<lparr>c_printed = [Banner, RpcLine ''http://localhost:8545'', ChainIdLine 1,
                         AddressLine ''0x0000000000000000000000000000000000000001'',
                         BlocksLine 10 25 10, NoEventsInAbi],
            c_chain_id = Some 1, c_from_block = 10, c_to_block = 25,
            c_address = ''0x0000000000000000000000000000000000000001'',
            c_topic_map = [], c_required = None\<rparr>
   \<and> event_entry str_unused (JObj [(''type'', JStr ''event''), (''name'', JStr ''Ping'')])
     = Inr (Some \<lparr>name = JStr ''Ping'', inputs = [], signature = ''Ping()''\<rparr>)"
proof -
  let ?f = "JObj [(''type'', JStr ''function''), (''name'', JStr ''transfer'')]"
  let ?W = "example_world (JArr [?f]) []"
  note T = skipped_definitions[where str = str_unused]
  have 1: "event_entry str_unused ?f = Inr None"
    using T[of "[(''type'', JStr ''function''), (''name'', JStr ''transfer'')]"]
    by (simp add: dict_get_def)
  have 2: "event_entry str_unused (JObj [(''type'', JStr ''event''), (''name'', JStr '''')])
             = Inr None"
    using T[of "[(''type'', JStr ''event''), (''name'', JStr '''')]"]
    by (simp add: dict_get_def)
  have 3: "event_entry str_unused
             (JObj [(''type'', JStr ''event''), (''name'', JStr ''Ping''), (''inputs'', JNull)])
             = Inr None"
    using T[of "[(''type'', JStr ''event''), (''name'', JStr ''Ping''), (''inputs'', JNull)]"]
    by (simp add: dict_get_def)
  have "\<forall>item \<in> set [?f]. event_entry str_unused item = Inr None"
    using 1 by simp
  with T[of _ _ _ "[?f]"]
  have "\<forall>W a k req.
          py_str W = str_unused \<and> main_connect W a = Inr k \<and> load_abi W (arg_abi a) = Inr [?f]
          \<and> load_required W (arg_expected_events a) = Inr req
          \<longrightarrow> main_setup W a
                = Inr \<lparr>c_printed = c_printed k @ [NoEventsInAbi],
                       c_chain_id = c_chain_id k, c_from_block = c_from_block k,
                       c_to_block = c_to_block k, c_address = c_address k,
                       c_topic_map = [], c_required = req\<rparr>"
    by blast
  with example_py_str[of "JArr [?f]" "[]"] example_connect[of "JArr [?f]" "[]" 10]
    example_load_abi[of "[?f]" "[]" 10] example_load_required[of ?W 10]
  have 4: "main_setup ?W (example_args 10)
     = Inr \<lparr>c_printed = [Banner, RpcLine ''http://localhost:8545'', ChainIdLine 1,
                         AddressLine ''0x0000000000000000000000000000000000000001'',
                         BlocksLine 10 25 10, NoEventsInAbi],
            c_chain_id = Some 1, c_from_block = 10, c_to_block = 25,
            c_address = ''0x0000000000000000000000000000000000000001'',
            c_topic_map = [], c_required = None\<rparr>"
    by fastforce
  have 5: "event_entry str_unused (JObj [(''type'', JStr ''event''), (''name'', JStr ''Ping'')])
     = Inr (Some \<lparr>name = JStr ''Ping'', inputs = [], signature = ''Ping()''\<rparr>)"
    using T[of "[(''type'', JStr ''event''), (''name'', JStr ''Ping'')]" _ _ _ "''Ping''"]
    by simp
  from 1 2 3 4 5 show ?thesis by blast
qed

text \<open>C6 as the specification states it fails: an event definition with a name and no
  \<open>inputs\<close> field contributes an entry.\<close>

theorem missing_inputs_counterexample:
  "map_of [(''type'', JStr ''event''), (''name'', JStr ''Ping'')] ''inputs'' = None
   \<and> build_event_signature_map str_unused
       [JObj [(''type'', JStr ''event''), (''name'', JStr ''Ping'')]]
     = Inr [(topic_of ''Ping()'', \<lparr>name = JStr ''Ping'', inputs = [], signature = ''Ping()''\<rparr>)]"
  by (simp add: build_event_signature_map_def event_entry_def dict_get_def format_name_def)

text \<open>
  C8. An event definition (of event kind, with a name and a list of inputs) one of whose
  inputs is an object without a \<open>"type"\<close> field is not skipped: \<open>build_event_signature_map\<close>
  raises, whatever else the array holds, and since \<open>main\<close> calls it outside any \<open>try\<close> the
  process ends with a traceback and status 1. When all the inputs are objects the exception
  is \<open>KeyError('type')\<close>.
\<close>

theorem missing_input_type_raises:
  assumes "JObj d \<in> set abi"
    and "map_of d ''type'' = Some (JStr ''event'')"
    and "truthy (dict_get d ''name'' JNull)"
    and "map_of d ''inputs'' = Some (JArr ins)"
    and "JObj di \<in> set ins" and "map_of di ''type'' = None"
  shows "(\<exists>e. event_entry str (JObj d) = Inl e)
         \<and> (\<exists>e. build_event_signature_map str abi = Inl e)
         \<and> ((\<forall>i \<in> set ins. \<exists>dj. i = JObj dj)
              \<longrightarrow> event_entry str (JObj d) = Inl (KeyError ''type''))
         \<and> (\<forall>W a k. py_str W = str \<and> main_connect W a = Inr k
                     \<and> load_abi W (arg_abi a) = Inr abi
              \<longrightarrow> (\<exists>e. main W a = Some \<lparr>printed = c_printed k @ [Traceback e],
                                        exit_code = 1\<rparr>))"
proof -
  have "subscript_type (JObj di) = Inl (KeyError ''type'')"
    using assms(6) by simp
  from collect_types_fail[OF assms(5) this]
  obtain e where c: "collect_types ins = Inl e" by blast
  have i: "dict_get d ''inputs'' (JArr []) = JArr ins"
    using assms(4) by (simp add: dict_get_def)
  have e: "event_entry str (JObj d) = Inl e"
    using event_entry_event[OF assms(2,3) i, of str] c by simp
  from build_loop_fail[OF assms(1) e, of "[]"]
  obtain e' where b: "build_event_signature_map str abi = Inl e'"
    by (auto simp: build_event_signature_map_def)
  have k: "event_entry str (JObj d) = Inl (KeyError ''type'')"
    if "\<forall>i \<in> set ins. \<exists>dj. i = JObj dj"
    using collect_types_dicts[OF that c] e by simp
  have m: "\<exists>e. main W a = Some \<lparr>printed = c_printed k @ [Traceback e], exit_code = 1\<rparr>"
    if "py_str W = str \<and> main_connect W a = Inr k \<and> load_abi W (arg_abi a) = Inr abi"
    for W a k
    using that b by (simp add: main_def main_setup_def uncaught_def)
  from e b k m show ?thesis by blast
qed

theorem missing_input_type_raises_witness:
  "build_event_signature_map str_unused
     [transfer_event,
      JObj [(''type'', JStr ''event''), (''name'', JStr ''Deposit''),
            (''inputs'', JArr [JObj [(''type'', JStr ''address'')], JObj [(''name'', JStr ''amount'')]])]]
     = Inl (KeyError ''type'')
   \<and> (\<exists>e. main (example_world
                 (JArr [transfer_event,
                        JObj [(''type'', JStr ''event''), (''name'', JStr ''Deposit''),
                              (''inputs'', JArr [JObj [(''type'', JStr ''address'')],
                                                 JObj [(''name'', JStr ''amount'')]])]]) [])
              (example_args 10)
          = Some \<lparr>printed = [Banner, RpcLine ''http://localhost:8545'', ChainIdLine 1,
                          AddressLine ''0x0000000000000000000000000000000000000001'',
                          BlocksLine 10 25 10, Traceback e],
                   exit_code = 1\<rparr>)"
proof -
  let ?ins = "[JObj [(''type'', JStr ''address'')], JObj [(''name'', JStr ''amount'')]]"
  let ?d = "[(''type'', JStr ''event''), (''name'', JStr ''Deposit''), (''inputs'', JArr ?ins)]"
  let ?abi = "[transfer_event, JObj ?d]"
  have a: "JObj ?d \<in> set ?abi"
    and b: "map_of ?d ''type'' = Some (JStr ''event'')"
    and c: "truthy (dict_get ?d ''name'' JNull)"
    and d: "map_of ?d ''inputs'' = Some (JArr ?ins)"
    and e: "JObj [(''name'', JStr ''amount'')] \<in> set ?ins"
    and f: "map_of [(''name'', JStr ''amount'')] ''type'' = None"
    by (simp_all add: dict_get_def)
  note T = missing_input_type_raises[OF a b c d e f, of str_unused]
  have 1: "build_event_signature_map str_unused ?abi = Inl (KeyError ''type'')"
    by (simp add: build_event_signature_map_def event_entry_def dict_get_def format_name_def
        transfer_event_def)
  from T have "\<forall>W a k. py_str W = str_unused \<and> main_connect W a = Inr k
                     \<and> load_abi W (arg_abi a) = Inr ?abi
              \<longrightarrow> (\<exists>e. main W a = Some \<lparr>printed = c_printed k @ [Traceback e],
                                        exit_code = 1\<rparr>)"
    by blast
  with example_py_str[of "JArr ?abi" "[]"] example_connect[of "JArr ?abi" "[]" 10]
    example_load_abi[of ?abi "[]" 10]
  have 2: "\<exists>e. main (example_world (JArr ?abi) []) (example_args 10)
          = Some \<lparr>printed = [Banner, RpcLine ''http://localhost:8545'', ChainIdLine 1,
                          AddressLine ''0x0000000000000000000000000000000000000001'',
                          BlocksLine 10 25 10, Traceback e],
                   exit_code = 1\<rparr>"
    by fastforce
  from 1 2 show ?thesis by blast
qed

section \<open>Properties of the log fetcher and of the program\<close>

lemma length_responses: "length (responses W ca hist rs) = length rs"
  by (induction rs arbitrary: hist) auto

lemma fetch_loop_ok:
  assumes "to_checksum_address W addr = Inr ca"
  shows "\<forall>r \<in> set (responses W ca hist rs). \<exists>logs. r = Inr logs \<Longrightarrow>
         fetch_loop W addr rs all_logs hist
           = (Inr (all_logs @ concat (map projr (responses W ca hist rs))), hist @ rs)"
proof (induction rs arbitrary: all_logs hist)
  case Nil
  show ?case by simp
next
  case (Cons r rs)
  obtain a b where r: "r = (a, b)" by (cases r)
  from Cons.prems obtain logs where l: "get_logs W hist ca a b = Inr logs"
    by (auto simp: r)
  from Cons.prems have "\<forall>x \<in> set (responses W ca (hist @ [(a, b)]) rs). \<exists>logs. x = Inr logs"
    by (simp add: r)
  from Cons.IH[OF this] show ?case
    by (simp add: r l assms)
qed

lemma fetch_loop_fail:
  assumes "to_checksum_address W addr = Inr ca"
  shows "k < length rs \<Longrightarrow> responses W ca hist rs ! k = Inl e \<Longrightarrow>
         \<forall>j < k. \<exists>logs. responses W ca hist rs ! j = Inr logs \<Longrightarrow>
         fetch_loop W addr rs all_logs hist = (Inl e, hist @ take (Suc k) rs)"
proof (induction rs arbitrary: k all_logs hist)
  case Nil
  then show ?case by simp
next
  case (Cons r rs)
  obtain a b where r: "r = (a, b)" by (cases r)
  show ?case
  proof (cases k)
    case 0
    with Cons.prems have "get_logs W hist ca a b = Inl e" by (simp add: r)
    then show ?thesis by (simp add: r 0 assms)
  next
    case (Suc k')
    from Cons.prems(3) Suc have "\<exists>logs. responses W ca hist (r # rs) ! 0 = Inr logs"
      by blast
    then obtain logs where l: "get_logs W hist ca a b = Inr logs" by (auto simp: r)
    have 1: "k' < length rs" using Cons.prems(1) Suc by simp
    have 2: "responses W ca (hist @ [(a, b)]) rs ! k' = Inl e"
      using Cons.prems(2) Suc by (simp add: r)
    have 3: "\<forall>j < k'. \<exists>logs. responses W ca (hist @ [(a, b)]) rs ! j = Inr logs"
    proof (intro allI impI)
      fix j assume "j < k'"
      then have "Suc j < k" using Suc by simp
      with Cons.prems(3) have "\<exists>logs. responses W ca hist (r # rs) ! Suc j = Inr logs"
        by blast
      then show "\<exists>logs. responses W ca (hist @ [(a, b)]) rs ! j = Inr logs"
        by (simp add: r)
    qed
    from Cons.IH[OF 1 2 3] show ?thesis
      by (simp add: r l assms Suc)
  qed
qed

lemma first_failure:
  "\<exists>r \<in> set xs. \<exists>e. r = Inl e \<Longrightarrow>
   \<exists>k e. k < length xs \<and> xs ! k = Inl e \<and> (\<forall>j < k. \<exists>v. xs ! j = Inr v)"
proof (induction xs)
  case Nil
  then show ?case by simp
next
  case (Cons x xs)
  show ?case
  proof (cases x)
    case (Inl e)
    then have "0 < length (x # xs) \<and> (x # xs) ! 0 = Inl e \<and> (\<forall>j < 0. \<exists>v. (x # xs) ! j = Inr v)"
      by simp
    then show ?thesis by blast
  next
    case (Inr v)
    with Cons.prems have "\<exists>r \<in> set xs. \<exists>e. r = Inl e" by auto
    from Cons.IH[OF this] obtain k e where k: "k < length xs" "xs ! k = Inl e"
      "\<forall>j < k. \<exists>v. xs ! j = Inr v" by blast
    have "\<forall>j < Suc k. \<exists>v. (x # xs) ! j = Inr v"
    proof (intro allI impI)
      fix j assume "j < Suc k"
      then show "\<exists>v. (x # xs) ! j = Inr v"
        using k(3) Inr by (cases j) simp_all
    qed
    with k have "Suc k < length (x # xs) \<and> (x # xs) ! Suc k = Inl e
                 \<and> (\<forall>j < Suc k. \<exists>v. (x # xs) ! j = Inr v)"
      by simp
    then show ?thesis by blast
  qed
qed

lemma main_connect_no_report:
  "main_connect W a = Inr k \<Longrightarrow> \<forall>l \<in> set (c_printed k). \<not> is_report l"
  by (auto simp: main_connect_def Let_def split: if_splits sum.splits option.splits)

lemma main_setup_no_report:
  assumes "main_setup W a = Inr c"
  shows "\<forall>l \<in> set (c_printed c). \<not> is_report l"
proof -
  from assms obtain k where k: "main_connect W a = Inr k"
    and p: "c_printed c = c_printed k \<or> c_printed c = c_printed k @ [NoEventsInAbi]"
    by (auto simp: main_setup_def Let_def split: sum.splits if_splits)
  from main_connect_no_report[OF k] p show ?thesis
    by auto
qed

lemma main_fetch_failed:
  assumes "main_setup W a = Inr c"
    and "fetch_logs W (arg_address a) (c_from_block c) (c_to_block c) (max 1 (arg_step a)) []
           = Some (Inl e, h)"
  shows "main W a = Some \<lparr>printed = c_printed c @ [FetchFailed e], exit_code = 1\<rparr>"
  using assms by (simp add: main_def sys_exit_def)


text \<open>
  C7. With the chunks \<open>rs\<close> of the range and a valid address: if every chunk query
  succeeds, \<open>fetch_logs\<close> returns the concatenation of the answers in chunk order, having
  sent each query once, in order; if the query of chunk \<open>k\<close> is the first that fails,
  \<open>fetch_logs\<close> fails with that error, returns no logs, and has sent exactly the queries of
  the chunks up to \<open>k\<close>, each once (no retry, nothing after the failure); so if any query
  fails, \<open>fetch_logs\<close> fails. When the fetch fails in \<open>main\<close>, the process prints the failure,
  prints no line of the report and exits with status 1.
\<close>

theorem fetch_all_or_nothing:
  assumes "chunk_ranges from_block to_block step = Some rs"
    and "to_checksum_address W addr = Inr ca"
  shows "((\<forall>r \<in> set (responses W ca hist rs). \<exists>logs. r = Inr logs)
           \<longrightarrow> fetch_logs W addr from_block to_block step hist
                 = Some (Inr (concat (map projr (responses W ca hist rs))), hist @ rs))
         \<and> (\<forall>k e. k < length rs \<and> responses W ca hist rs ! k = Inl e
                   \<and> (\<forall>j < k. \<exists>logs. responses W ca hist rs ! j = Inr logs)
              \<longrightarrow> fetch_logs W addr from_block to_block step hist
                    = Some (Inl e, hist @ take (Suc k) rs))
         \<and> ((\<exists>r \<in> set (responses W ca hist rs). \<exists>e. r = Inl e)
              \<longrightarrow> (\<exists>e h. fetch_logs W addr from_block to_block step hist = Some (Inl e, h)))
         \<and> (\<forall>a c e h.
               main_setup W a = Inr c
               \<and> fetch_logs W (arg_address a) (c_from_block c) (c_to_block c)
                    (max 1 (arg_step a)) [] = Some (Inl e, h)
              \<longrightarrow> (\<exists>out. main W a = Some out \<and> exit_code out = 1
                          \<and> printed out = c_printed c @ [FetchFailed e]
                          \<and> (\<forall>l \<in> set (printed out). \<not> is_report l)))"
proof -
  have f: "fetch_logs W addr from_block to_block step hist = Some (fetch_loop W addr rs [] hist)"
    by (simp add: fetch_logs_def assms(1))
  have 1: "fetch_logs W addr from_block to_block step hist
             = Some (Inr (concat (map projr (responses W ca hist rs))), hist @ rs)"
    if "\<forall>r \<in> set (responses W ca hist rs). \<exists>logs. r = Inr logs"
    unfolding f using fetch_loop_ok[OF assms(2) that, of "[]"] by simp
  have 2: "fetch_logs W addr from_block to_block step hist = Some (Inl e, hist @ take (Suc k) rs)"
    if "k < length rs \<and> responses W ca hist rs ! k = Inl e
        \<and> (\<forall>j < k. \<exists>logs. responses W ca hist rs ! j = Inr logs)" for k e
    unfolding f using fetch_loop_fail[OF assms(2), of k rs hist e "[]"] that by simp
  have 3: "\<exists>e h. fetch_logs W addr from_block to_block step hist = Some (Inl e, h)"
    if "\<exists>r \<in> set (responses W ca hist rs). \<exists>e. r = Inl e"
  proof -
    from first_failure[OF that] obtain k e where
      "k < length rs \<and> responses W ca hist rs ! k = Inl e
        \<and> (\<forall>j < k. \<exists>logs. responses W ca hist rs ! j = Inr logs)"
      by (auto simp: length_responses)
    from 2[OF this] show ?thesis by blast
  qed
  have 4: "\<exists>out. main W a = Some out \<and> exit_code out = 1
                \<and> printed out = c_printed c @ [FetchFailed e]
                \<and> (\<forall>l \<in> set (printed out). \<not> is_report l)"
    if "main_setup W a = Inr c
        \<and> fetch_logs W (arg_address a) (c_from_block c) (c_to_block c)
             (max 1 (arg_step a)) [] = Some (Inl e, h)" for a c e h
  proof -
    from that have s: "main_setup W a = Inr c" by simp
    from main_fetch_failed[of W a c e h] that
    have "main W a = Some \<lparr>printed = c_printed c @ [FetchFailed e], exit_code = 1\<rparr>"
      by simp
    with main_setup_no_report[OF s] show ?thesis by simp
  qed
  from 1 2 3 4 show ?thesis by blast
qed

lemma example_setup_empty:
  "main_setup (example_world (JArr []) answers) (example_args st)
     = Inr \<lparr>c_printed = [Banner, RpcLine ''http://localhost:8545'', ChainIdLine 1,
                         AddressLine ''0x0000000000000000000000000000000000000001'',
                         BlocksLine 10 25 st, NoEventsInAbi],
            c_chain_id = Some 1, c_from_block = 10, c_to_block = 25,
            c_address = ''0x0000000000000000000000000000000000000001'',
            c_topic_map = [], c_required = None\<rparr>"
proof -
  have "load_abi (example_world (JArr []) answers) (arg_abi (example_args st)) = Inr []"
    by (simp add: load_abi_def example_world_def)
  moreover have "load_required (example_world (JArr []) answers)
                   (arg_expected_events (example_args st)) = Inr None"
    by (simp add: load_required_def example_args_def)
  ultimately show ?thesis
    by (simp add: main_setup_def example_connect build_event_signature_map_def)
qed

lemma example_chunks:
  "chunk_ranges 10 25 5 = Some [(10, 14), (15, 19), (20, 24), (25, 25)]"
  by (simp add: chunk_ranges_def chunk_loop.simps)

lemma example_address:
  "arg_address (example_args st) = ''0x0000000000000000000000000000000000000001''"
  by (simp add: example_args_def)

theorem fetch_all_or_nothing_witness:
  "fetch_logs (example_world (JArr []) [(10, Inr [\<lparr>topics = Some [[0xab]]\<rparr>]),
                                        (20, Inl (ExternalError ''timeout''))])
      ''0x0000000000000000000000000000000000000001'' 10 25 5 []
     = Some (Inl (ExternalError ''timeout''), [(10, 14), (15, 19), (20, 24)])
   \<and> main (example_world (JArr []) [(10, Inr [\<lparr>topics = Some [[0xab]]\<rparr>]),
                                     (20, Inl (ExternalError ''timeout''))])
        (example_args 5)
     = Some \<lparr>printed = [Banner, RpcLine ''http://localhost:8545'', ChainIdLine 1,
                         AddressLine ''0x0000000000000000000000000000000000000001'',
                         BlocksLine 10 25 5, NoEventsInAbi,
                         FetchFailed (ExternalError ''timeout'')],
             exit_code = 1\<rparr>
   \<and> fetch_logs (example_world (JArr []) [(10, Inr [\<lparr>topics = Some [[0xab]]\<rparr>]),
                                          (25, Inr [\<lparr>topics = None\<rparr>])])
      ''0x0000000000000000000000000000000000000001'' 10 25 5 []
     = Some (Inr [\<lparr>topics = Some [[0xab]]\<rparr>, \<lparr>topics = None\<rparr>],
             [(10, 14), (15, 19), (20, 24), (25, 25)])"
proof -
  let ?addr = "''0x0000000000000000000000000000000000000001''"
  let ?lg = "\<lparr>topics = Some [[0xab :: byte]]\<rparr>"
  let ?rs = "[(10, 14), (15, 19), (20, 24), (25, 25 :: int)] :: (int \<times> int) list"
  let ?W = "example_world (JArr []) [(10, Inr [?lg]), (20, Inl (ExternalError ''timeout''))]"
  let ?V = "example_world (JArr []) [(10, Inr [?lg]), (25, Inr [\<lparr>topics = None\<rparr>])]"
  have cW: "to_checksum_address ?W ?addr = Inr ?addr"
    and cV: "to_checksum_address ?V ?addr = Inr ?addr"
    by (simp_all add: example_world_def)
  have rW: "responses ?W ?addr [] ?rs
              = [Inr [?lg], Inr [], Inl (ExternalError ''timeout''), Inr []]"
    by (simp add: example_world_def dict_get_def)
  have rV: "responses ?V ?addr [] ?rs = [Inr [?lg], Inr [], Inr [], Inr [\<lparr>topics = None\<rparr>]]"
    by (simp add: example_world_def dict_get_def)
  note TW = fetch_all_or_nothing[OF example_chunks cW, of "[]"]
  note TV = fetch_all_or_nothing[OF example_chunks cV, of "[]"]
  have "(2::nat) < length ?rs \<and> responses ?W ?addr [] ?rs ! 2 = Inl (ExternalError ''timeout'')
        \<and> (\<forall>j < 2. \<exists>logs. responses ?W ?addr [] ?rs ! j = Inr logs)"
    unfolding rW by (auto simp: less_Suc_eq numeral_2_eq_2)
  from TW[THEN conjunct2, THEN conjunct1, THEN spec, THEN spec, THEN mp, OF this]
  have "fetch_logs ?W ?addr 10 25 5 [] = Some (Inl (ExternalError ''timeout''), [] @ take (Suc 2) ?rs)" .
  then have 1: "fetch_logs ?W ?addr 10 25 5 []
                  = Some (Inl (ExternalError ''timeout''), [(10, 14), (15, 19), (20, 24)])"
    by simp
  have s: "main_setup ?W (example_args 5)
     = Inr \<lparr>c_printed = [Banner, RpcLine ''http://localhost:8545'', ChainIdLine 1,
                         AddressLine ?addr, BlocksLine 10 25 5, NoEventsInAbi],
            c_chain_id = Some 1, c_from_block = 10, c_to_block = 25,
            c_address = ?addr, c_topic_map = [], c_required = None\<rparr>"
    by (rule example_setup_empty)
  let ?c = "\<lparr>c_printed = [Banner, RpcLine ''http://localhost:8545'', ChainIdLine 1,
                         AddressLine ?addr, BlocksLine 10 25 5, NoEventsInAbi],
            c_chain_id = Some 1, c_from_block = 10, c_to_block = 25,
            c_address = ?addr, c_topic_map = [], c_required = None\<rparr>"
  have "fetch_logs ?W (arg_address (example_args 5)) (c_from_block ?c) (c_to_block ?c)
          (max 1 (arg_step (example_args 5))) []
          = Some (Inl (ExternalError ''timeout''), [(10, 14), (15, 19), (20, 24)])"
    using 1 by (simp add: example_args_def)
  with s have "main_setup ?W (example_args 5) = Inr ?c
     \<and> fetch_logs ?W (arg_address (example_args 5)) (c_from_block ?c) (c_to_block ?c)
          (max 1 (arg_step (example_args 5))) []
          = Some (Inl (ExternalError ''timeout''), [(10, 14), (15, 19), (20, 24)])"
    by (rule conjI)
  from TW[THEN conjunct2, THEN conjunct2, THEN conjunct2, THEN spec, THEN spec, THEN spec, THEN spec, THEN mp, OF this]
  have "\<exists>out. main ?W (example_args 5) = Some out \<and> exit_code out = 1
      \<and> printed out = c_printed ?c @ [FetchFailed (ExternalError ''timeout'')]
      \<and> (\<forall>l \<in> set (printed out). \<not> is_report l)" .
  then have 2: "main ?W (example_args 5)
     = Some \<lparr>printed = [Banner, RpcLine ''http://localhost:8545'', ChainIdLine 1,
                         AddressLine ?addr, BlocksLine 10 25 5, NoEventsInAbi,
                         FetchFailed (ExternalError ''timeout'')],
             exit_code = 1\<rparr>"
    by auto
  have "\<forall>r \<in> set (responses ?V ?addr [] ?rs). \<exists>logs. r = Inr logs"
    unfolding rV by simp
  from TV[THEN conjunct1, THEN mp, OF this]
  have "fetch_logs ?V ?addr 10 25 5 []
     = Some (Inr (concat (map projr (responses ?V ?addr [] ?rs))), [] @ ?rs)" .
  then have 3: "fetch_logs ?V ?addr 10 25 5 []
     = Some (Inr [?lg, \<lparr>topics = None\<rparr>], ?rs)"
    unfolding rV by simp
  from 1 2 3 show ?thesis by blast
qed


lemma fetch_logs_returns:
  "1 \<le> step \<Longrightarrow> \<exists>r h. fetch_logs W addr from_block to_block step hist = Some (r, h)"
  by (cases "fetch_loop W addr (chunk_list from_block to_block step) [] hist")
     (simp add: fetch_logs_def chunk_ranges_closed)

lemma chunk_ranges_diverges:
  "step \<le> 0 \<Longrightarrow> start \<le> end \<Longrightarrow> chunk_ranges start end step = None"
  by (simp add: chunk_ranges_def chunk_loop_diverges)

text \<open>
  C9. With \<open>step \<ge> 1\<close>, \<open>chunk_ranges\<close> returns for every \<open>start\<close> and \<open>end\<close>, and each
  iteration of its loop goes on from a strictly larger \<open>cur\<close>. \<open>main\<close> calls \<open>fetch_logs\<close>
  with \<open>max(1, step)\<close>, which is at least 1, so the fetch of the pipeline returns and the
  program ends for every \<open>--step\<close>, also a zero or negative one.
\<close>

theorem chunker_terminates:
  "(1 \<le> step \<longrightarrow>
      (\<exists>rs. chunk_ranges start end step = Some rs)
      \<and> (\<forall>cur ranges. cur \<le> end \<longrightarrow>
            cur < min (cur + step - 1) end + 1
            \<and> chunk_loop cur end step ranges
              = chunk_loop (min (cur + step - 1) end + 1) end step
                  (ranges @ [(cur, min (cur + step - 1) end)])))
   \<and> 1 \<le> max 1 (arg_step a)
   \<and> (\<forall>c. main_setup W a = Inr c \<longrightarrow>
         (\<exists>r h. fetch_logs W (arg_address a) (c_from_block c) (c_to_block c)
                   (max 1 (arg_step a)) [] = Some (r, h)
                \<and> main W a = Some (case r of
                                      Inl e \<Rightarrow> sys_exit (c_printed c @ [FetchFailed e]) 1
                                    | Inr logs \<Rightarrow> finish a c logs)))
   \<and> (\<exists>out. main W a = Some out)"
proof -
  have 1: "\<exists>rs. chunk_ranges start end step = Some rs" if "1 \<le> step"
    using chunk_ranges_closed[OF that] by blast
  have 2: "cur < min (cur + step - 1) end + 1
           \<and> chunk_loop cur end step ranges
             = chunk_loop (min (cur + step - 1) end + 1) end step
                 (ranges @ [(cur, min (cur + step - 1) end)])"
    if "1 \<le> step" "cur \<le> end" for cur ranges
  proof
    show "cur < min (cur + step - 1) end + 1" using that by simp
    show "chunk_loop cur end step ranges
            = chunk_loop (min (cur + step - 1) end + 1) end step
                (ranges @ [(cur, min (cur + step - 1) end)])"
      using that(2) by (subst chunk_loop.simps) (simp add: Let_def)
  qed
  have 3: "1 \<le> max 1 (arg_step a)" by simp
  have 4: "\<exists>r h. fetch_logs W (arg_address a) (c_from_block c) (c_to_block c)
                   (max 1 (arg_step a)) [] = Some (r, h)
                \<and> main W a = Some (case r of
                                      Inl e \<Rightarrow> sys_exit (c_printed c @ [FetchFailed e]) 1
                                    | Inr logs \<Rightarrow> finish a c logs)"
    if s: "main_setup W a = Inr c" for c
  proof -
    from fetch_logs_returns[OF 3] obtain r h where
      f: "fetch_logs W (arg_address a) (c_from_block c) (c_to_block c)
            (max 1 (arg_step a)) [] = Some (r, h)"
      by blast
    then have "main W a = Some (case r of
                                  Inl e \<Rightarrow> sys_exit (c_printed c @ [FetchFailed e]) 1
                                | Inr logs \<Rightarrow> finish a c logs)"
      using s by (cases r) (simp_all add: main_def)
    with f show ?thesis by blast
  qed
  have 5: "\<exists>out. main W a = Some out"
  proof (cases "main_setup W a")
    case (Inl out)
    then show ?thesis by (simp add: main_def)
  next
    case (Inr c)
    from 4[OF this] show ?thesis by blast
  qed
  show ?thesis
  proof (intro conjI impI allI)
    assume "1 \<le> step"
    then show "\<exists>rs. chunk_ranges start end step = Some rs" by (rule 1)
  next
    fix cur ranges assume "1 \<le> step" "cur \<le> end"
    from 2[OF this, of ranges]
    show "cur < min (cur + step - 1) end + 1"
      and "chunk_loop cur end step ranges
             = chunk_loop (min (cur + step - 1) end + 1) end step
                 (ranges @ [(cur, min (cur + step - 1) end)])"
      by simp_all
  next
    show "1 \<le> max 1 (arg_step a)" by (rule 3)
  next
    fix c assume "main_setup W a = Inr c"
    then show "\<exists>r h. fetch_logs W (arg_address a) (c_from_block c) (c_to_block c)
                   (max 1 (arg_step a)) [] = Some (r, h)
                \<and> main W a = Some (case r of
                                      Inl e \<Rightarrow> sys_exit (c_printed c @ [FetchFailed e]) 1
                                    | Inr logs \<Rightarrow> finish a c logs)"
      by (rule 4)
  next
    show "\<exists>out. main W a = Some out" by (rule 5)
  qed
qed

theorem chunker_terminates_witness:
  "(1::int) \<le> 10 \<and> (\<exists>rs. chunk_ranges 10 25 10 = Some rs)
   \<and> arg_step (example_args 0) = 0
   \<and> (\<exists>out. main (example_world (JArr []) []) (example_args 0) = Some out)
   \<and> (\<exists>r h. fetch_logs (example_world (JArr []) [])
               ''0x0000000000000000000000000000000000000001'' 10 25 1 [] = Some (r, h))"
proof -
  let ?W = "example_world (JArr []) []"
  note T = chunker_terminates[of 10 10 25 "example_args 0" ?W]
  have a: "(1::int) \<le> 10" by simp
  from T[THEN conjunct1, THEN mp, OF a, THEN conjunct1]
  have 1: "\<exists>rs. chunk_ranges 10 25 10 = Some rs" .
  have 2: "arg_step (example_args 0) = 0" by (simp add: example_args_def)
  from T[THEN conjunct2, THEN conjunct2, THEN conjunct2]
  have 3: "\<exists>out. main ?W (example_args 0) = Some out" .
  from T[THEN conjunct2, THEN conjunct2, THEN conjunct1, THEN spec, THEN mp,
         OF example_setup_empty[of "[]" 0]]
  have "\<exists>r h. fetch_logs ?W (arg_address (example_args 0)) 10 25
                (max 1 (arg_step (example_args 0))) [] = Some (r, h)"
    by auto
  then have 4: "\<exists>r h. fetch_logs ?W ''0x0000000000000000000000000000000000000001'' 10 25 1 []
                  = Some (r, h)"
    by (simp add: example_args_def)
  from a 1 2 3 4 show ?thesis by blast
qed


























text \<open>
  The names in the signature map are the values under \<open>"name"\<close> of the event definitions:
  for an ABI in which every name that is not skipped is a string, every name in the map is
  a \<open>str\<close>.
\<close>

lemma event_entry_name:
  "event_entry str item = Inr (Some en) \<Longrightarrow>
   \<exists>d. item = JObj d \<and> name en = dict_get d ''name'' JNull \<and> truthy (name en)"
  by (auto simp: event_entry_def Let_def split: json.splits if_splits sum.splits)

lemma in_update_cases:
  "(k', v') \<in> set (AList.update k v al) \<Longrightarrow> (k', v') \<in> set al \<or> (k' = k \<and> v' = v)"
  by (induction al) (auto split: if_splits)

lemma build_loop_names:
  assumes "build_loop str abi tm = Inr tm'"
    and "\<forall>d. JObj d \<in> set abi \<and> truthy (dict_get d ''name'' JNull)
               \<longrightarrow> is_str (dict_get d ''name'' JNull)"
    and "\<forall>(t, en) \<in> set tm. is_str (name en)"
  shows "\<forall>(t, en) \<in> set tm'. is_str (name en)"
  using assms
proof (induction abi arbitrary: tm)
  case Nil
  then show ?case by simp
next
  case (Cons item abi)
  from Cons.prems(2)
  have rest: "\<forall>d. JObj d \<in> set abi \<and> truthy (dict_get d ''name'' JNull)
                    \<longrightarrow> is_str (dict_get d ''name'' JNull)"
    by simp
  show ?case
  proof (cases "event_entry str item")
    case (Inl e)
    with Cons.prems(1) show ?thesis by simp
  next
    case (Inr r)
    show ?thesis
    proof (cases r)
      case None
      with Inr Cons.prems(1) have "build_loop str abi tm = Inr tm'" by simp
      from Cons.IH[OF this rest Cons.prems(3)] show ?thesis .
    next
      case (Some en)
      with Inr have e: "event_entry str item = Inr (Some en)" by simp
      from event_entry_name[OF e] Cons.prems(2) have n: "is_str (name en)"
        by auto
      have "\<forall>(t, en') \<in> set (AList.update (topic_of (signature en)) en tm). is_str (name en')"
        using Cons.prems(3) n in_update_cases[of _ _ "topic_of (signature en)" en tm]
        by fastforce
      moreover from e Cons.prems(1)
      have "build_loop str abi (AList.update (topic_of (signature en)) en tm) = Inr tm'"
        by simp
      ultimately show ?thesis using Cons.IH rest by blast
    qed
  qed
qed

lemma string_abi_names:
  assumes "build_event_signature_map str abi = Inr tm"
    and "\<forall>d. JObj d \<in> set abi \<and> truthy (dict_get d ''name'' JNull)
               \<longrightarrow> is_str (dict_get d ''name'' JNull)"
  shows "\<forall>(t, en) \<in> set tm. is_str (name en)"
  using build_loop_names[of str abi "[]" tm] assms
  by (simp add: build_event_signature_map_def)











end
